theory Spec2Isabelle
  imports Complex_Main
begin

section \<open>Four-tier memory subsystem: in-process backends\<close>

text \<open>
  The memory subsystem of the repository (directory \<open>memory_systems\<close>) has four tiers,
  each with a networked backend (Redis, PostgreSQL, ChromaDB, Neo4j) and an in-process
  fallback that the code itself implements. The networked branches only forward to an
  external service; the algorithms of the repository are the in-process branches, which
  are the ones embedded here (\<open>self.redis_client\<close>, \<open>self.connection_pool\<close>,
  \<open>self.collection\<close> and \<open>self.driver\<close> are \<open>None\<close>).

  Conventions of the embedding:
  \<^item> \<open>datetime.now()\<close> is an explicit argument \<open>now\<close>, read once per call; a
    \<open>datetime\<close> is a count of microseconds (the resolution of Python's type) from
    \<open>datetime.min\<close>, and \<open>isoformat\<close>/\<open>fromisoformat\<close> are inverse to each other, so
    an ISO string is modelled by the instant it denotes;
  \<^item> the text that \<open>json.dumps\<close> writes is represented by the JSON value it denotes
    (a \<open>pyval\<close>: null, booleans, numbers, strings, arrays, objects with string names);
  \<^item> a Python float is modelled by the rational (or real) number it is written as.
\<close>

subsection \<open>Python values\<close>

datatype pyval =
    PNone
  | PBool bool
  | PInt int
  | PFloat rat
  | PStr string
  | PList "pyval list"
  | PDict "(string \<times> pyval) list"

type_synonym pydict = "(string \<times> pyval) list"

type_synonym datetime = int

definition timedelta_seconds :: "int \<Rightarrow> int" where
  "timedelta_seconds s = s * 1000000"

text \<open>\<open>d.update(u)\<close>: a key already present keeps its position, a new key goes last.\<close>

fun dict_set :: "'k \<Rightarrow> 'v \<Rightarrow> ('k \<times> 'v) list \<Rightarrow> ('k \<times> 'v) list" where
  "dict_set k v [] = [(k, v)]"
| "dict_set k v (p # ps) = (if fst p = k then (k, v) # ps else p # dict_set k v ps)"

fun dict_update :: "pydict \<Rightarrow> pydict \<Rightarrow> pydict" where
  "dict_update d [] = d"
| "dict_update d ((k, v) # us) = dict_update (dict_set k v d) us"

subsection \<open>Python objects and their JSON serialisation\<close>

text \<open>
  The payloads a caller can hand to the short-term store: besides the JSON-typed values,
  tuples, dictionaries with keys that are not strings, and objects that are not
  serialisable at all (a \<open>datetime\<close> stands for them).

  \<open>json.dumps(data, default=str)\<close>, with \<open>str\<close> the library's \<open>str()\<close>: a tuple is
  written as an array; a dictionary key that is a number, a boolean or \<open>None\<close> is written
  as a string, any other key that is not a string raises \<open>TypeError\<close> (the result
  \<open>None\<close>); a value that is not serialisable is replaced by \<open>str\<close> of it.
  \<open>json.loads\<close> reads arrays as lists and objects as dictionaries with string keys, the
  last member winning where a name is repeated.
\<close>

datatype pyobj =
    ONone
  | OBool bool
  | OInt int
  | OFloat rat
  | OStr string
  | OList "pyobj list"
  | OTuple "pyobj list"
  | ODict "(pyobj \<times> pyobj) list"
  | ODatetime datetime

fun json_key :: "(pyobj \<Rightarrow> string) \<Rightarrow> pyobj \<Rightarrow> string option" where
  "json_key str (OStr s) = Some s"
| "json_key str (OBool b) = Some (if b then ''true'' else ''false'')"
| "json_key str (OInt i) = Some (str (OInt i))"
| "json_key str (OFloat r) = Some (str (OFloat r))"
| "json_key str ONone = Some ''null''"
| "json_key str other = None"

fun those_pairs :: "('a option \<times> 'b option) list \<Rightarrow> ('a \<times> 'b) list option" where
  "those_pairs [] = Some []"
| "those_pairs ((Some k, Some v) # ps) = map_option ((#) (k, v)) (those_pairs ps)"
| "those_pairs (p # ps) = None"

fun json_dumps_default_str :: "(pyobj \<Rightarrow> string) \<Rightarrow> pyobj \<Rightarrow> pyval option" where
  "json_dumps_default_str str ONone = Some PNone"
| "json_dumps_default_str str (OBool b) = Some (PBool b)"
| "json_dumps_default_str str (OInt i) = Some (PInt i)"
| "json_dumps_default_str str (OFloat r) = Some (PFloat r)"
| "json_dumps_default_str str (OStr s) = Some (PStr s)"
| "json_dumps_default_str str (OList xs) =
     map_option PList (those (map (json_dumps_default_str str) xs))"
| "json_dumps_default_str str (OTuple xs) =
     map_option PList (those (map (json_dumps_default_str str) xs))"
| "json_dumps_default_str str (ODict kvs) =
     map_option PDict
       (those_pairs (map (\<lambda>(k, v). (json_key str k, json_dumps_default_str str v)) kvs))"
| "json_dumps_default_str str (ODatetime t) = Some (PStr (str (ODatetime t)))"

fun json_loads :: "pyval \<Rightarrow> pyobj" where
  "json_loads PNone = ONone"
| "json_loads (PBool b) = OBool b"
| "json_loads (PInt i) = OInt i"
| "json_loads (PFloat r) = OFloat r"
| "json_loads (PStr s) = OStr s"
| "json_loads (PList xs) = OList (map json_loads xs)"
| "json_loads (PDict kvs) =
     ODict (foldl (\<lambda>d (k, v). dict_set (OStr k) (json_loads v) d) [] kvs)"

subsection \<open>ShortTermMemory (in-memory fallback)\<close>

text \<open>
  \<open>self.memory_store[key] = {"data": serialized_data, "expires_at": expiry}\<close>.
  The store is written for any payload type: \<open>dumps\<close> is \<open>json.dumps(data, default=str)\<close>
  on that type (\<open>None\<close> where it raises) and \<open>loads\<close> is \<open>json.loads\<close>; the entry keeps
  the serialised data.
\<close>

record 's entry =
  data :: 's
  expires_at :: "datetime option"

type_synonym 's memory_store = "string \<rightharpoonup> 's entry"

text \<open>\<open>if ttl\<close>: the argument is given and is not zero.\<close>

fun ttl_truthy :: "int option \<Rightarrow> bool" where
  "ttl_truthy None = False"
| "ttl_truthy (Some t) = (t \<noteq> 0)"

text \<open>
  \<open>datetime.now() + timedelta(seconds=ttl)\<close> raises \<open>OverflowError\<close> when the number of
  seconds is outside the range of \<open>timedelta\<close> (999999999 days either way) or the sum is
  outside \<open>datetime.min .. datetime.max\<close> (years 1 to 9999).
\<close>

definition datetime_max :: datetime where
  "datetime_max = 315537897599999999"

definition timedelta_overflows :: "int \<Rightarrow> bool" where
  "timedelta_overflows seconds = (seconds < - 86399999913600 \<or> 86399999999999 < seconds)"

definition expiry_overflows :: "datetime \<Rightarrow> int \<Rightarrow> bool" where
  "expiry_overflows now ttl =
     (timedelta_overflows ttl \<or> now + timedelta_seconds ttl < 0
      \<or> datetime_max < now + timedelta_seconds ttl)"

text \<open>
  \<open>store\<close>: whatever is raised inside the \<open>try\<close> (by \<open>json.dumps\<close>, or by the sum that
  gives the expiry) is caught, nothing is stored and the result is False.
\<close>

definition short_term_store ::
  "('d \<Rightarrow> 's option) \<Rightarrow> 's memory_store \<Rightarrow> string \<Rightarrow> 'd \<Rightarrow> int option \<Rightarrow> datetime \<Rightarrow>
   bool \<times> 's memory_store" where
  "short_term_store dumps ms key d ttl now =
     (case dumps d of
        None \<Rightarrow> (False, ms)
      | Some serialized_data \<Rightarrow>
          (if ttl_truthy ttl \<and> expiry_overflows now (the ttl) then (False, ms)
           else (let expiry = (if ttl_truthy ttl then Some (now + timedelta_seconds (the ttl))
                               else None)
                 in (True, ms(key \<mapsto> \<lparr>data = serialized_data, expires_at = expiry\<rparr>)))))"

definition short_term_get ::
  "('s \<Rightarrow> 'd) \<Rightarrow> 's memory_store \<Rightarrow> string \<Rightarrow> datetime \<Rightarrow> 'd option \<times> 's memory_store" where
  "short_term_get loads ms key now =
     (case ms key of
        None \<Rightarrow> (None, ms)
      | Some e \<Rightarrow>
          (case expires_at e of
             None \<Rightarrow> (Some (loads (data e)), ms)
           | Some x \<Rightarrow> if now > x then (None, ms(key := None))
                       else (Some (loads (data e)), ms)))"

subsection \<open>Library functions taken as parameters\<close>

text \<open>
  The functions of the Python library that the code calls on opaque payloads:
  \<open>str()\<close> (also the formatting of an f-string field), \<open>json.dumps\<close>,
  \<open>datetime.isoformat\<close>, and \<open>int(hashlib.md5(text.encode()).hexdigest(), 16)\<close>.
\<close>

record pylib =
  str_of :: "pyval \<Rightarrow> string"
  json_dumps :: "pyval \<Rightarrow> string"
  isoformat :: "datetime \<Rightarrow> string"
  md5_int :: "string \<Rightarrow> nat"

text \<open>\<open>sep.join(parts)\<close>\<close>

fun py_join :: "string \<Rightarrow> string list \<Rightarrow> string" where
  "py_join sep [] = []"
| "py_join sep [x] = x"
| "py_join sep (x # y # ys) = x @ sep @ py_join sep (y # ys)"

text \<open>\<open>xs[:limit]\<close>: a negative limit counts from the end.\<close>

definition py_slice_to :: "'a list \<Rightarrow> int \<Rightarrow> 'a list" where
  "py_slice_to xs limit =
     (if 0 \<le> limit then take (nat limit) xs else take (nat (int (length xs) + limit)) xs)"

text \<open>
  \<open>xs.sort(key=k, reverse=True)\<close>: stable, descending. The first argument is the
  comparison \<open>k x < k y\<close>; an element goes in front of the first one whose key is not
  larger than its own, so elements with equal keys keep their order.
\<close>

fun insort_desc :: "('a \<Rightarrow> 'a \<Rightarrow> bool) \<Rightarrow> 'a \<Rightarrow> 'a list \<Rightarrow> 'a list" where
  "insort_desc lt x [] = [x]"
| "insort_desc lt x (y # ys) = (if \<not> lt x y then x # y # ys else y # insort_desc lt x ys)"

definition sort_desc :: "('a \<Rightarrow> 'a \<Rightarrow> bool) \<Rightarrow> 'a list \<Rightarrow> 'a list" where
  "sort_desc lt xs = foldr (insort_desc lt) xs []"

text \<open>
  The order of the keys \<open>x.get("timestamp", "")\<close>: the empty string of a missing
  timestamp is below every ISO string, and ISO strings compare as their instants do.
\<close>

fun timestamp_lt :: "datetime option \<Rightarrow> datetime option \<Rightarrow> bool" where
  "timestamp_lt None None = False"
| "timestamp_lt None (Some b) = True"
| "timestamp_lt (Some a) None = False"
| "timestamp_lt (Some a) (Some b) = (a < b)"

text \<open>
  \<open>round(x, n)\<close> on the exact value: to the nearest multiple of \<open>10^-n\<close>, a tie to the
  even one.
\<close>

definition round_half_even :: "rat \<Rightarrow> int" where
  "round_half_even x =
     (let f = \<lfloor>x\<rfloor>; d = x - of_int f
      in if d < 1 / 2 then f else if 1 / 2 < d then f + 1 else if even f then f else f + 1)"

definition py_round :: "rat \<Rightarrow> nat \<Rightarrow> rat" where
  "py_round x n = of_int (round_half_even (x * 10 ^ n)) / 10 ^ n"

subsection \<open>Records of the coordinator\<close>

text \<open>
  \<open>memory_data\<close> of \<open>store_short_term\<close>, the interaction record and the profile of
  \<open>_consolidate_to_long_term\<close> and \<open>store_long_term\<close>: dictionaries with fixed keys.
\<close>

record memory_data =
  md_conversation_id :: string
  md_lead_id :: string
  md_context :: pydict
  md_last_updated :: datetime
  md_interaction_count :: int

record interaction_record =
  ir_conversation_id :: string
  ir_interaction_count :: int
  ir_context_summary :: string
  ir_timestamp :: "datetime option"

record profile =
  p_lead_id :: string
  p_preferences :: pydict
  p_interaction_history :: "interaction_record list"
  p_last_updated :: datetime
  p_rfm_score :: rat

subsection \<open>EpisodicMemory (in-memory fallback)\<close>

text \<open>
  An episode is a dictionary with the keys of the data model; a key may be missing.
  \<open>episode_get\<close> is the dictionary view (\<open>metadata.get(k)\<close>, \<open>k in metadata\<close>).
\<close>

record episode =
  ep_scenario :: "string option"
  ep_agent_type :: "string option"
  ep_action_sequence :: "pyval list option"
  ep_outcome_score :: "rat option"
  ep_context :: "pydict option"
  ep_timestamp :: "datetime option"
  ep_episode_id :: "string option"
  ep_stored_at :: "datetime option"

definition episode_get :: "pylib \<Rightarrow> episode \<Rightarrow> string \<Rightarrow> pyval option" where
  "episode_get L e k =
     (if k = ''scenario'' then map_option PStr (ep_scenario e)
      else if k = ''agent_type'' then map_option PStr (ep_agent_type e)
      else if k = ''action_sequence'' then map_option PList (ep_action_sequence e)
      else if k = ''outcome_score'' then map_option PFloat (ep_outcome_score e)
      else if k = ''context'' then map_option PDict (ep_context e)
      else if k = ''timestamp'' then map_option (\<lambda>t. PStr (isoformat L t)) (ep_timestamp e)
      else if k = ''episode_id'' then map_option PStr (ep_episode_id e)
      else if k = ''stored_at'' then map_option (\<lambda>t. PStr (isoformat L t)) (ep_stored_at e)
      else None)"

record stored =
  st_id :: string
  st_embedding :: "real list"
  st_text :: string
  st_metadata :: episode

record episodic_memory =
  embedding_model :: "(string \<Rightarrow> real list) option"
  em_memory_store :: "stored list"

record search_result =
  sr_episode :: episode
  sr_similarity_score :: real

definition create_embedding :: "pylib \<Rightarrow> episodic_memory \<Rightarrow> string \<Rightarrow> real list" where
  "create_embedding L em txt =
     (case embedding_model em of
        Some encode \<Rightarrow> encode txt
      | None \<Rightarrow>
          (let hash_int = md5_int L txt
           in map (\<lambda>i. real ((hash_int div 2 ^ i) mod 256) / 255 - 1 / 2) [0..<384]))"

definition episode_to_text :: "pylib \<Rightarrow> episode \<Rightarrow> string" where
  "episode_to_text L e =
     (let text_parts = (case ep_scenario e of None \<Rightarrow> [] | Some s \<Rightarrow> [''scenario: '' @ s]);
          context = (case ep_context e of None \<Rightarrow> [] | Some c \<Rightarrow> c);
          text_parts = text_parts @ map (\<lambda>(k, v). k @ '': '' @ str_of L v) context;
          actions = (case ep_action_sequence e of None \<Rightarrow> [] | Some a \<Rightarrow> a);
          text_parts = (if actions \<noteq> []
                        then text_parts @ [''actions: '' @ py_join '' '' (map (str_of L) actions)]
                        else text_parts)
      in py_join '' | '' text_parts)"

definition episodic_store ::
  "pylib \<Rightarrow> episodic_memory \<Rightarrow> string \<Rightarrow> episode \<Rightarrow> bool \<times> episodic_memory" where
  "episodic_store L em episode_id e =
     (let episode_text = episode_to_text L e;
          embedding = create_embedding L em episode_text
      in (True, em\<lparr>em_memory_store := em_memory_store em @
            [\<lparr>st_id = episode_id, st_embedding = embedding, st_text = episode_text,
              st_metadata = e\<rparr>]\<rparr>))"

definition cosine_similarity :: "real list \<Rightarrow> real list \<Rightarrow> real" where
  "cosine_similarity a b =
     (let dot_product = sum_list (map (\<lambda>(x, y). x * y) (zip a b));
          magnitude_a = sqrt (sum_list (map (\<lambda>x. x * x) a));
          magnitude_b = sqrt (sum_list (map (\<lambda>x. x * x) b))
      in if magnitude_a = 0 \<or> magnitude_b = 0 then 0
         else dot_product / (magnitude_a * magnitude_b))"

text \<open>
  \<open>all(metadata.get(k) == v for k, v in filters.items() if k in metadata)\<close>: a filter
  on a key that the episode does not have is skipped.
\<close>

definition filters_match :: "pylib \<Rightarrow> episode \<Rightarrow> pydict \<Rightarrow> bool" where
  "filters_match L metadata filters =
     list_all (\<lambda>(k, v). case episode_get L metadata k of None \<Rightarrow> True | Some x \<Rightarrow> x = v) filters"

fun search_loop :: "pylib \<Rightarrow> real list \<Rightarrow> pydict \<Rightarrow> stored list \<Rightarrow> search_result list" where
  "search_loop L query_embedding filters [] = []"
| "search_loop L query_embedding filters (s # rest) =
     (let similarity = cosine_similarity query_embedding (st_embedding s)
      in if filters \<noteq> [] \<and> \<not> filters_match L (st_metadata s) filters
         then search_loop L query_embedding filters rest
         else \<lparr>sr_episode = st_metadata s, sr_similarity_score = similarity\<rparr>
              # search_loop L query_embedding filters rest)"

definition search_similar ::
  "pylib \<Rightarrow> episodic_memory \<Rightarrow> string \<Rightarrow> pydict \<Rightarrow> int \<Rightarrow> search_result list" where
  "search_similar L em query_text filters limit =
     (let query_embedding = create_embedding L em query_text;
          similarities = search_loop L query_embedding filters (em_memory_store em);
          similarities = sort_desc (\<lambda>x y. sr_similarity_score x < sr_similarity_score y) similarities
      in py_slice_to similarities limit)"


subsection \<open>SemanticMemory (NetworkX fallback)\<close>

text \<open>
  The fallback graph is a \<open>networkx.DiGraph\<close>: a dictionary of nodes and, per node, a
  dictionary from successor to the attribute dictionary of the one edge between the two
  (a \<open>DiGraph\<close> holds at most one edge per ordered pair of nodes). Both dictionaries keep
  insertion order, which is the order of \<open>neighbors\<close> and of \<open>edges\<close>.
\<close>

record node_attrs =
  n_type :: "string option"
  n_category :: "string option"
  n_value :: "string option"
  n_fit :: "string option"

record edge_attrs =
  e_type :: "string option"
  e_weight :: "rat option"
  e_source :: "string option"
  e_created_at :: "datetime option"
  e_strength :: "rat option"

record digraph =
  node :: "(string \<times> node_attrs) list"
  succ :: "(string \<times> (string \<times> edge_attrs) list) list"

definition empty_digraph :: digraph where
  "empty_digraph = \<lparr>node = [], succ = []\<rparr>"

definition no_node_attrs :: node_attrs where
  "no_node_attrs = \<lparr>n_type = None, n_category = None, n_value = None, n_fit = None\<rparr>"

definition no_edge_attrs :: edge_attrs where
  "no_edge_attrs =
     \<lparr>e_type = None, e_weight = None, e_source = None, e_created_at = None, e_strength = None\<rparr>"

text \<open>\<open>datadict.update(attr)\<close> on the fixed keys: a key given in \<open>attr\<close> overwrites.\<close>

definition or_else :: "'a option \<Rightarrow> 'a option \<Rightarrow> 'a option" where
  "or_else new old = (case new of None \<Rightarrow> old | Some v \<Rightarrow> Some v)"

definition node_attrs_update :: "node_attrs \<Rightarrow> node_attrs \<Rightarrow> node_attrs" where
  "node_attrs_update old new =
     \<lparr>n_type = or_else (n_type new) (n_type old),
      n_category = or_else (n_category new) (n_category old),
      n_value = or_else (n_value new) (n_value old),
      n_fit = or_else (n_fit new) (n_fit old)\<rparr>"

definition edge_attrs_update :: "edge_attrs \<Rightarrow> edge_attrs \<Rightarrow> edge_attrs" where
  "edge_attrs_update old new =
     \<lparr>e_type = or_else (e_type new) (e_type old),
      e_weight = or_else (e_weight new) (e_weight old),
      e_source = or_else (e_source new) (e_source old),
      e_created_at = or_else (e_created_at new) (e_created_at old),
      e_strength = or_else (e_strength new) (e_strength old)\<rparr>"

definition has_node :: "digraph \<Rightarrow> string \<Rightarrow> bool" where
  "has_node g n = (map_of (node g) n \<noteq> None)"

text \<open>
  \<open>bool(G)\<close>: a networkx graph defines \<open>__len__\<close> as its number of nodes and no
  \<open>__bool__\<close>, so a graph without nodes is falsy.
\<close>

definition digraph_truthy :: "digraph \<Rightarrow> bool" where
  "digraph_truthy g = (length (node g) \<noteq> 0)"

definition add_node :: "digraph \<Rightarrow> string \<Rightarrow> node_attrs \<Rightarrow> digraph" where
  "add_node g n attr =
     (case map_of (node g) n of
        None \<Rightarrow> \<lparr>node = node g @ [(n, attr)], succ = succ g @ [(n, [])]\<rparr>
      | Some old \<Rightarrow> g\<lparr>node := dict_set n (node_attrs_update old attr) (node g)\<rparr>)"

definition ensure_node :: "digraph \<Rightarrow> string \<Rightarrow> digraph" where
  "ensure_node g n =
     (if map_of (succ g) n = None
      then \<lparr>node = node g @ [(n, no_node_attrs)], succ = succ g @ [(n, [])]\<rparr>
      else g)"

definition add_edge :: "digraph \<Rightarrow> string \<Rightarrow> string \<Rightarrow> edge_attrs \<Rightarrow> digraph" where
  "add_edge g u v attr =
     (let g = ensure_node g u;
          g = ensure_node g v;
          adj_u = (case map_of (succ g) u of None \<Rightarrow> [] | Some a \<Rightarrow> a);
          datadict = (case map_of adj_u v of None \<Rightarrow> no_edge_attrs | Some d \<Rightarrow> d);
          datadict = edge_attrs_update datadict attr
      in g\<lparr>succ := dict_set u (dict_set v datadict adj_u) (succ g)\<rparr>)"

text \<open>\<open>G.edges(data=True)\<close>\<close>

definition edges :: "digraph \<Rightarrow> (string \<times> string \<times> edge_attrs) list" where
  "edges g = concat (map (\<lambda>(n, nbrs). map (\<lambda>(nbr, dd). (n, nbr, dd)) nbrs) (succ g))"

record semantic_memory =
  graph :: "digraph option"

definition graph_truthy :: "digraph option \<Rightarrow> bool" where
  "graph_truthy go = (case go of None \<Rightarrow> False | Some g \<Rightarrow> digraph_truthy g)"

definition concept_attrs :: "string \<Rightarrow> string \<Rightarrow> node_attrs" where
  "concept_attrs t c = no_node_attrs\<lparr>n_type := Some t, n_category := Some c\<rparr>"

definition default_concepts :: "(string \<times> node_attrs) list" where
  "default_concepts =
     [(''email_marketing'', concept_attrs ''channel'' ''digital''),
      (''social_media'', concept_attrs ''channel'' ''digital''),
      (''content_marketing'', concept_attrs ''channel'' ''digital''),
      (''paid_search'', concept_attrs ''channel'' ''paid''),
      (''organic_search'', concept_attrs ''channel'' ''organic''),
      (''lead_nurturing'', concept_attrs ''strategy'' ''engagement''),
      (''retargeting'', concept_attrs ''strategy'' ''optimization''),
      (''personalization'', concept_attrs ''strategy'' ''engagement''),
      (''segmentation'', concept_attrs ''strategy'' ''targeting''),
      (''conversion'', no_node_attrs\<lparr>n_type := Some ''outcome'', n_value := Some ''high''\<rparr>),
      (''engagement'', no_node_attrs\<lparr>n_type := Some ''outcome'', n_value := Some ''medium''\<rparr>),
      (''awareness'', no_node_attrs\<lparr>n_type := Some ''outcome'', n_value := Some ''low''\<rparr>),
      (''technology'', no_node_attrs\<lparr>n_type := Some ''industry'', n_fit := Some ''high''\<rparr>),
      (''financial_services'', no_node_attrs\<lparr>n_type := Some ''industry'', n_fit := Some ''high''\<rparr>),
      (''healthcare'', no_node_attrs\<lparr>n_type := Some ''industry'', n_fit := Some ''medium''\<rparr>),
      (''retail'', no_node_attrs\<lparr>n_type := Some ''industry'', n_fit := Some ''medium''\<rparr>)]"

definition relationship_attrs :: "string \<Rightarrow> rat \<Rightarrow> edge_attrs" where
  "relationship_attrs t s = no_edge_attrs\<lparr>e_type := Some t, e_strength := Some s\<rparr>"

definition default_relationships :: "(string \<times> string \<times> edge_attrs) list" where
  "default_relationships =
     [(''email_marketing'', ''lead_nurturing'', relationship_attrs ''enables'' (9 / 10)),
      (''social_media'', ''engagement'', relationship_attrs ''drives'' (8 / 10)),
      (''content_marketing'', ''lead_nurturing'', relationship_attrs ''supports'' (8 / 10)),
      (''paid_search'', ''retargeting'', relationship_attrs ''enables'' (7 / 10)),
      (''lead_nurturing'', ''conversion'', relationship_attrs ''leads_to'' (8 / 10)),
      (''personalization'', ''engagement'', relationship_attrs ''improves'' (9 / 10)),
      (''segmentation'', ''conversion'', relationship_attrs ''optimizes'' (7 / 10)),
      (''retargeting'', ''conversion'', relationship_attrs ''increases'' (6 / 10)),
      (''technology'', ''personalization'', relationship_attrs ''prefers'' (8 / 10)),
      (''financial_services'', ''content_marketing'', relationship_attrs ''responds_to'' (7 / 10)),
      (''healthcare'', ''email_marketing'', relationship_attrs ''suitable_for'' (6 / 10))]"

definition initialize_default_knowledge :: "semantic_memory \<Rightarrow> semantic_memory" where
  "initialize_default_knowledge sm =
     (if \<not> graph_truthy (graph sm) then sm
      else (let g = the (graph sm);
                g = foldl (\<lambda>g (c, attributes). add_node g c attributes) g default_concepts;
                g = foldl (\<lambda>g (s, t, attributes). add_edge g s t attributes) g default_relationships
            in sm\<lparr>graph := Some g\<rparr>))"

text \<open>
  \<open>initialize\<close> when no Neo4j driver connects and networkx is importable:
  \<open>self.graph = nx.DiGraph()\<close>, then \<open>_initialize_default_knowledge()\<close>.
\<close>

definition semantic_initialize :: semantic_memory where
  "semantic_initialize = initialize_default_knowledge \<lparr>graph = Some empty_digraph\<rparr>"

record triple =
  t_subject :: string
  t_predicate :: string
  t_object :: string
  t_weight :: "rat option"
  t_source :: "string option"

definition store_triple :: "semantic_memory \<Rightarrow> triple \<Rightarrow> datetime \<Rightarrow> bool \<times> semantic_memory" where
  "store_triple sm t now =
     (let subject = t_subject t;
          predicate = t_predicate t;
          obj = t_object t;
          weight = (case t_weight t of None \<Rightarrow> 1 | Some w \<Rightarrow> w);
          source = (case t_source t of None \<Rightarrow> ''system'' | Some s \<Rightarrow> s)
      in if graph_truthy (graph sm)
         then (let g = the (graph sm);
                   g = (if \<not> has_node g subject
                        then add_node g subject (no_node_attrs\<lparr>n_type := Some ''concept''\<rparr>) else g);
                   g = (if \<not> has_node g obj
                        then add_node g obj (no_node_attrs\<lparr>n_type := Some ''concept''\<rparr>) else g);
                   g = add_edge g subject obj
                         (no_edge_attrs\<lparr>e_type := Some predicate, e_weight := Some weight,
                            e_source := Some source, e_created_at := Some now\<rparr>)
               in (True, sm\<lparr>graph := Some g\<rparr>))
         else (True, sm))"

record triple_row =
  row_subject :: string
  row_predicate :: string
  row_object :: string
  row_weight :: rat
  row_source :: string

text \<open>\<open>if subject and source_node != subject\<close>: an empty string is no filter.\<close>

definition str_filter_rejects :: "string option \<Rightarrow> string option \<Rightarrow> bool" where
  "str_filter_rejects f actual = (case f of None \<Rightarrow> False | Some x \<Rightarrow> x \<noteq> [] \<and> actual \<noteq> Some x)"

definition query_triples ::
  "semantic_memory \<Rightarrow> string option \<Rightarrow> string option \<Rightarrow> string option \<Rightarrow> triple_row list" where
  "query_triples sm subject predicate object =
     (if graph_truthy (graph sm)
      then map (\<lambda>(source_node, target_node, edge_data).
                  \<lparr>row_subject = source_node,
                   row_predicate = (case e_type edge_data of None \<Rightarrow> ''related_to'' | Some t \<Rightarrow> t),
                   row_object = target_node,
                   row_weight = (case e_weight edge_data of None \<Rightarrow> 1 | Some w \<Rightarrow> w),
                   row_source = (case e_source edge_data of None \<Rightarrow> ''system'' | Some s \<Rightarrow> s)\<rparr>)
             (filter (\<lambda>(source_node, target_node, edge_data).
                        \<not> str_filter_rejects subject (Some source_node)
                      \<and> \<not> str_filter_rejects object (Some target_node)
                      \<and> \<not> str_filter_rejects predicate (e_type edge_data))
                (edges (the (graph sm))))
      else [])"

record related =
  rel_concept :: string
  rel_path_types :: "string list"
  rel_distance :: int
  rel_relationship :: string

type_synonym qitem = "string \<times> int \<times> string list"

text \<open>\<open>relationship_types and edge_type not in relationship_types\<close>\<close>

definition type_filtered :: "string list option \<Rightarrow> string \<Rightarrow> bool" where
  "type_filtered relationship_types edge_type =
     (case relationship_types of None \<Rightarrow> False | Some ts \<Rightarrow> ts \<noteq> [] \<and> edge_type \<notin> set ts)"

text \<open>
  The inner loop \<open>for neighbor in self.graph.neighbors(current)\<close>, over the adjacency
  dictionary of \<open>current\<close>; \<open>get_edge_data(current, neighbor)\<close> is the value under the key.
\<close>

fun visit_neighbors ::
  "string \<Rightarrow> string list option \<Rightarrow> int \<Rightarrow> string set \<Rightarrow> int \<Rightarrow> string list \<Rightarrow>
   (string \<times> edge_attrs) list \<Rightarrow> qitem list \<times> related list \<Rightarrow> qitem list \<times> related list" where
  "visit_neighbors concept relationship_types depth visited curr_depth path [] acc = acc"
| "visit_neighbors concept relationship_types depth visited curr_depth path
     ((neighbor, edge_data) # nbrs) (queue, related) =
     (if neighbor \<notin> visited then
        (let edge_type = (case e_type edge_data of None \<Rightarrow> ''related_to'' | Some t \<Rightarrow> t)
         in if type_filtered relationship_types edge_type
            then visit_neighbors concept relationship_types depth visited curr_depth path nbrs
                   (queue, related)
            else (let new_path = path @ [edge_type];
                      queue = (if curr_depth + 1 < depth
                               then queue @ [(neighbor, curr_depth + 1, new_path)] else queue);
                      related = (if neighbor \<noteq> concept
                                 then related @ [\<lparr>rel_concept = neighbor, rel_path_types = new_path,
                                                  rel_distance = curr_depth + 1,
                                                  rel_relationship = edge_type\<rparr>]
                                 else related)
                  in visit_neighbors concept relationship_types depth visited curr_depth path nbrs
                       (queue, related)))
      else visit_neighbors concept relationship_types depth visited curr_depth path nbrs
             (queue, related))"

definition graph_names :: "digraph \<Rightarrow> string set" where
  "graph_names g = fst ` set (succ g) \<union> (\<Union>(n, nbrs) \<in> set (succ g). fst ` set nbrs)"

lemma visit_neighbors_step:
  "visit_neighbors c ts d vis cd p ((n, e) # nbrs) (q, r) =
   visit_neighbors c ts d vis cd p nbrs
     (if n \<notin> vis \<and> \<not> type_filtered ts (case e_type e of None \<Rightarrow> ''related_to'' | Some t \<Rightarrow> t) \<and> cd + 1 < d
      then q @ [(n, cd + 1, p @ [case e_type e of None \<Rightarrow> ''related_to'' | Some t \<Rightarrow> t])] else q,
      if n \<notin> vis \<and> \<not> type_filtered ts (case e_type e of None \<Rightarrow> ''related_to'' | Some t \<Rightarrow> t) \<and> n \<noteq> c
      then r @ [\<lparr>rel_concept = n,
                 rel_path_types = p @ [case e_type e of None \<Rightarrow> ''related_to'' | Some t \<Rightarrow> t],
                 rel_distance = cd + 1,
                 rel_relationship = (case e_type e of None \<Rightarrow> ''related_to'' | Some t \<Rightarrow> t)\<rparr>]
      else r)"
  by (simp add: Let_def)

lemma visit_neighbors_queue:
  "fst ` set (fst (visit_neighbors c ts d vis cd p nbrs acc)) \<subseteq> fst ` set (fst acc) \<union> fst ` set nbrs"
proof (induction nbrs arbitrary: acc)
  case Nil
  show ?case by simp
next
  case (Cons nb nbrs)
  obtain n e where nb: "nb = (n, e)" by (cases nb)
  obtain q r where acc: "acc = (q, r)" by (cases acc)
  show ?case
    unfolding nb acc visit_neighbors_step
    by (rule subset_trans [OF Cons.IH]) auto
qed

function bfs ::
  "digraph \<Rightarrow> string \<Rightarrow> string list option \<Rightarrow> int \<Rightarrow> string set \<Rightarrow> qitem list \<Rightarrow>
   related list \<Rightarrow> related list option" where
  "bfs g concept relationship_types depth visited [] related = Some related"
| "bfs g concept relationship_types depth visited ((current, curr_depth, path) # queue) related =
     (if current \<in> visited \<or> curr_depth \<ge> depth
      then bfs g concept relationship_types depth visited queue related
      else (case map_of (succ g) current of
              None \<Rightarrow> None
            | Some nbrs \<Rightarrow>
                bfs g concept relationship_types depth (insert current visited)
                  (fst (visit_neighbors concept relationship_types depth (insert current visited)
                          curr_depth path nbrs (queue, related)))
                  (snd (visit_neighbors concept relationship_types depth (insert current visited)
                          curr_depth path nbrs (queue, related)))))"
  by pat_completeness auto

lemma graph_names_finite: "finite (graph_names g)"
  by (auto simp: graph_names_def)

lemma neighbours_in_graph_names:
  "map_of (succ g) n = Some nbrs \<Longrightarrow> fst ` set nbrs \<subseteq> graph_names g"
  by (force simp: graph_names_def dest: map_of_SomeD)

termination bfs
proof (relation "measures [\<lambda>(g, c, ts, d, vis, q, r). card ((graph_names g \<union> fst ` set q) - vis),
                           \<lambda>(g, c, ts, d, vis, q, r). length q]", goal_cases)
  case 1
  show ?case by simp
next
  case (2 g c ts d vis cur cd p q r)
  have "card ((graph_names g \<union> fst ` set q) - vis)
        \<le> card ((graph_names g \<union> fst ` set ((cur, cd, p) # q)) - vis)"
    by (rule card_mono) (auto simp: graph_names_finite)
  then show ?case by auto
next
  case (3 g c ts d vis cur cd p q r nbrs)
  let ?q' = "fst (visit_neighbors c ts d (insert cur vis) cd p nbrs (q, r))"
  have "fst ` set ?q' \<subseteq> fst ` set q \<union> graph_names g"
    using visit_neighbors_queue [of c ts d "insert cur vis" cd p nbrs "(q, r)"]
      neighbours_in_graph_names [OF 3(2)] by auto
  then have "(graph_names g \<union> fst ` set ?q') - insert cur vis
             \<subset> (graph_names g \<union> fst ` set ((cur, cd, p) # q)) - vis"
    using 3(1) by auto
  then have "card ((graph_names g \<union> fst ` set ?q') - insert cur vis)
             < card ((graph_names g \<union> fst ` set ((cur, cd, p) # q)) - vis)"
    by (intro psubset_card_mono) (auto simp: graph_names_finite)
  then show ?case by (simp add: case_prod_unfold)
qed


definition get_related_concepts ::
  "semantic_memory \<Rightarrow> string \<Rightarrow> string list option \<Rightarrow> int \<Rightarrow> related list" where
  "get_related_concepts sm concept relationship_types depth =
     (if graph_truthy (graph sm)
      then (if \<not> has_node (the (graph sm)) concept then []
            else (case bfs (the (graph sm)) concept relationship_types depth {} [(concept, 0, [])] [] of
                    None \<Rightarrow> []
                  | Some related \<Rightarrow> related))
      else [])"

subsection \<open>MemoryManager\<close>

text \<open>
  The state of the coordinator: the four tiers. \<open>long_term_log\<close> is a trace added by the
  model: every call of \<open>LongTermMemory.store\<close> appends the pair it writes, so that the
  number of long-term writes of an operation can be stated.
\<close>

record memory_manager =
  short_term :: "memory_data memory_store"
  long_term :: "string \<rightharpoonup> profile"
  long_term_log :: "(string \<times> profile) list"
  episodic :: episodic_memory
  semantic :: semantic_memory

definition short_to_long_threshold :: int where
  "short_to_long_threshold = 5"

definition episodic_success_threshold :: rat where
  "episodic_success_threshold = 8 / 10"

definition long_term_store :: "memory_manager \<Rightarrow> string \<Rightarrow> profile \<Rightarrow> bool \<times> memory_manager" where
  "long_term_store mm lead_id d =
     (True, mm\<lparr>long_term := (long_term mm)(lead_id \<mapsto> d),
               long_term_log := long_term_log mm @ [(lead_id, d)]\<rparr>)"

definition get_long_term :: "memory_manager \<Rightarrow> string \<Rightarrow> profile option" where
  "get_long_term mm lead_id = long_term mm lead_id"

text \<open>\<open>max(interaction_history, key=lambda x: x.get("timestamp", ""))\<close>: the first maximum.\<close>

fun max_by_timestamp :: "interaction_record \<Rightarrow> interaction_record list \<Rightarrow> interaction_record" where
  "max_by_timestamp m [] = m"
| "max_by_timestamp m (x # xs) =
     max_by_timestamp (if timestamp_lt (ir_timestamp m) (ir_timestamp x) then x else m) xs"

definition calculate_rfm_score :: "string \<Rightarrow> interaction_record list \<Rightarrow> datetime \<Rightarrow> rat" where
  "calculate_rfm_score lead_id interaction_history now =
     (case interaction_history of
        [] \<Rightarrow> 0
      | first # rest \<Rightarrow>
          (let last_interaction = max_by_timestamp first rest;
               last_timestamp = (case ir_timestamp last_interaction of None \<Rightarrow> now | Some t \<Rightarrow> t);
               days_since = (now - last_timestamp) div 86400000000;
               recency_score = max 0 (1 - of_int days_since / 30);
               frequency_score = min 1 (of_nat (length interaction_history) / 10);
               monetary_score = 1 / 2;
               rfm_score = (recency_score + frequency_score + monetary_score) / 3
           in py_round rfm_score 3))"






definition store_long_term ::
  "memory_manager \<Rightarrow> string \<Rightarrow> pydict \<Rightarrow> interaction_record list \<Rightarrow> datetime \<Rightarrow>
   bool \<times> memory_manager" where
  "store_long_term mm lead_id preferences interaction_history now =
     long_term_store mm lead_id
       \<lparr>p_lead_id = lead_id, p_preferences = preferences,
        p_interaction_history = interaction_history, p_last_updated = now,
        p_rfm_score = calculate_rfm_score lead_id interaction_history now\<rparr>"

definition copy_key :: "pydict \<Rightarrow> string \<Rightarrow> string \<Rightarrow> pydict \<Rightarrow> pydict" where
  "copy_key context src dst preferences =
     (case map_of context src of None \<Rightarrow> preferences | Some v \<Rightarrow> dict_set dst v preferences)"

definition extract_preferences :: "pydict \<Rightarrow> pydict" where
  "extract_preferences context =
     (let preferences = [];
          preferences = copy_key context ''preferred_channel'' ''communication_channel'' preferences;
          preferences = copy_key context ''contact_time'' ''contact_time'' preferences;
          preferences = copy_key context ''interests'' ''interests'' preferences;
          preferences = copy_key context ''communication_style'' ''communication_style'' preferences;
          preferences = copy_key context ''product_interests'' ''product_interests'' preferences
      in preferences)"

definition summary_part :: "pylib \<Rightarrow> pydict \<Rightarrow> string \<Rightarrow> string \<Rightarrow> string list" where
  "summary_part L context k label =
     (case map_of context k of None \<Rightarrow> [] | Some v \<Rightarrow> [label @ str_of L v])"

definition summarize_context :: "pylib \<Rightarrow> pydict \<Rightarrow> string" where
  "summarize_context L context =
     (let summary_parts = summary_part L context ''lead_source'' ''Source: ''
                        @ summary_part L context ''interaction_type'' ''Type: ''
                        @ summary_part L context ''outcome'' ''Outcome: ''
      in if summary_parts \<noteq> [] then py_join '' | '' summary_parts else ''General interaction'')"

definition consolidate_to_long_term ::
  "pylib \<Rightarrow> memory_manager \<Rightarrow> string \<Rightarrow> memory_data \<Rightarrow> datetime \<Rightarrow> bool \<times> memory_manager" where
  "consolidate_to_long_term L mm conversation_id short_term_data now =
     (let lead_id = md_lead_id short_term_data
      in if lead_id = [] then (False, mm)
         else (let existing_long_term = get_long_term mm lead_id;
                   preferences = extract_preferences (md_context short_term_data);
                   interaction_record =
                     \<lparr>ir_conversation_id = conversation_id,
                      ir_interaction_count = md_interaction_count short_term_data,
                      ir_context_summary = summarize_context L (md_context short_term_data),
                      ir_timestamp = Some (md_last_updated short_term_data)\<rparr>
               in (case existing_long_term of
                     Some existing \<Rightarrow>
                       (True, snd (store_long_term mm lead_id
                          (dict_update (p_preferences existing) preferences)
                          (p_interaction_history existing @ [interaction_record]) now))
                   | None \<Rightarrow>
                       (True, snd (store_long_term mm lead_id preferences [interaction_record] now)))))"

text \<open>
  The record that the coordinator stores is JSON-typed: its keys are fixed strings, its
  values are strings, an integer and a context of JSON values under string keys. On it
  \<open>json.dumps\<close> does not raise and \<open>json.loads\<close> gives the record back, so its
  serialised text is represented by the record.
\<close>

definition memory_data_dumps :: "memory_data \<Rightarrow> memory_data option" where
  "memory_data_dumps md = Some md"

definition memory_data_loads :: "memory_data \<Rightarrow> memory_data" where
  "memory_data_loads serialized_data = serialized_data"

definition get_short_term ::
  "memory_manager \<Rightarrow> string \<Rightarrow> datetime \<Rightarrow> memory_data option \<times> memory_manager" where
  "get_short_term mm conversation_id now =
     (case short_term_get memory_data_loads (short_term mm) conversation_id now of
        (r, ms) \<Rightarrow> (r, mm\<lparr>short_term := ms\<rparr>))"

text \<open>\<open>ttl or 3600\<close>\<close>

definition ttl_or_default :: "int option \<Rightarrow> int" where
  "ttl_or_default ttl = (if ttl_truthy ttl then the ttl else 3600)"

definition store_short_term ::
  "pylib \<Rightarrow> memory_manager \<Rightarrow> string \<Rightarrow> string \<Rightarrow> pydict \<Rightarrow> int option \<Rightarrow> datetime \<Rightarrow>
   bool \<times> memory_manager" where
  "store_short_term L mm conversation_id lead_id context ttl now =
     (let memory_data = \<lparr>md_conversation_id = conversation_id, md_lead_id = lead_id,
                         md_context = context, md_last_updated = now,
                         md_interaction_count = 1\<rparr>;
          (existing, mm) = get_short_term mm conversation_id now;
          memory_data = (case existing of
                           None \<Rightarrow> memory_data
                         | Some ex \<Rightarrow> memory_data\<lparr>md_interaction_count := md_interaction_count ex + 1\<rparr>);
          (success, ms) = short_term_store memory_data_dumps (short_term mm) conversation_id
                            memory_data (Some (ttl_or_default ttl)) now;
          mm = mm\<lparr>short_term := ms\<rparr>;
          mm = (if md_interaction_count memory_data \<ge> short_to_long_threshold
                then snd (consolidate_to_long_term L mm conversation_id memory_data now)
                else mm)
      in (success, mm))"

definition update_short_term ::
  "memory_manager \<Rightarrow> string \<Rightarrow> pydict \<Rightarrow> datetime \<Rightarrow> bool \<times> memory_manager" where
  "update_short_term mm conversation_id context_updates now =
     (case get_short_term mm conversation_id now of
        (None, mm) \<Rightarrow> (False, mm)
      | (Some existing, mm) \<Rightarrow>
          (let existing = existing\<lparr>md_context := dict_update (md_context existing) context_updates,
                                    md_last_updated := now,
                                    md_interaction_count := md_interaction_count existing + 1\<rparr>;
               (success, ms) = short_term_store memory_data_dumps (short_term mm)
                                 conversation_id existing None now
           in (success, mm\<lparr>short_term := ms\<rparr>)))"

definition store_episodic_memory ::
  "pylib \<Rightarrow> memory_manager \<Rightarrow> episode \<Rightarrow> string \<Rightarrow> datetime \<Rightarrow> bool \<times> memory_manager" where
  "store_episodic_memory L mm e uuid4 now =
     (let outcome_score = (case ep_outcome_score e of None \<Rightarrow> 0 | Some x \<Rightarrow> x)
      in if outcome_score < episodic_success_threshold then (False, mm)
         else (let episode_id = uuid4;
                   e = e\<lparr>ep_episode_id := Some episode_id, ep_stored_at := Some now\<rparr>;
                   (success, em) = episodic_store L (episodic mm) episode_id e
               in (success, mm\<lparr>episodic := em\<rparr>)))"

definition context_to_search_text :: "pylib \<Rightarrow> pydict \<Rightarrow> string" where
  "context_to_search_text L context =
     py_join '' ''
       (map (\<lambda>(k, v). case v of
                         PStr s \<Rightarrow> k @ '': '' @ s
                       | PList _ \<Rightarrow> k @ '': '' @ json_dumps L v
                       | PDict _ \<Rightarrow> k @ '': '' @ json_dumps L v
                       | _ \<Rightarrow> k @ '': '' @ str_of L v) context)"

definition search_episodic_memory ::
  "pylib \<Rightarrow> memory_manager \<Rightarrow> pydict \<Rightarrow> string option \<Rightarrow> int \<Rightarrow> search_result list" where
  "search_episodic_memory L mm query_context agent_type limit =
     (let query_text = context_to_search_text L query_context;
          filters = (case agent_type of
                       None \<Rightarrow> []
                     | Some a \<Rightarrow> if a \<noteq> [] then [(''agent_type'', PStr a)] else [])
      in search_similar L (episodic mm) query_text filters limit)"

text \<open>
  \<open>episode.get("outcome_score", 0.0)\<close>; the stores that hold only episodes the
  coordinator accepts; and a caller that issues further \<open>store_episodic_memory\<close> calls.
\<close>

definition outcome_or_zero :: "episode \<Rightarrow> rat" where
  "outcome_or_zero e = (case ep_outcome_score e of None \<Rightarrow> 0 | Some x \<Rightarrow> x)"

definition only_accepted :: "episodic_memory \<Rightarrow> bool" where
  "only_accepted em =
     list_all (\<lambda>s. episodic_success_threshold \<le> outcome_or_zero (st_metadata s)) (em_memory_store em)"

fun store_episodes ::
  "pylib \<Rightarrow> memory_manager \<Rightarrow> (episode \<times> string \<times> datetime) list \<Rightarrow> memory_manager" where
  "store_episodes L mm [] = mm"
| "store_episodes L mm ((e, uuid4, now) # later) =
     store_episodes L (snd (store_episodic_memory L mm e uuid4 now)) later"

text \<open>
  The merge of preferences in the words of the specification, to be compared with
  \<open>extract_preferences\<close> and \<open>dict.update\<close>: under each recognised preference key the
  value that the context holds for it, if any, and otherwise the value of the existing
  profile (last write wins per key). And a caller that issues \<open>store_short_term\<close> calls
  for one conversation and lead, one after the other.
\<close>

definition recognized_preference_keys :: "(string \<times> string) list" where
  "recognized_preference_keys =
     [(''preferred_channel'', ''communication_channel''),
      (''contact_time'', ''contact_time''),
      (''interests'', ''interests''),
      (''communication_style'', ''communication_style''),
      (''product_interests'', ''product_interests'')]"

definition spec_extracted_preference :: "pydict \<Rightarrow> string \<Rightarrow> pyval option" where
  "spec_extracted_preference context k =
     (case find (\<lambda>(src, dst). dst = k) recognized_preference_keys of
        None \<Rightarrow> None
      | Some (src, dst) \<Rightarrow> map_of context src)"

definition spec_merged_preferences :: "(string \<rightharpoonup> pyval) \<Rightarrow> pydict \<Rightarrow> (string \<rightharpoonup> pyval)" where
  "spec_merged_preferences existing context =
     (\<lambda>k. case spec_extracted_preference context k of Some v \<Rightarrow> Some v | None \<Rightarrow> existing k)"

fun store_short_term_calls ::
  "pylib \<Rightarrow> memory_manager \<Rightarrow> string \<Rightarrow> string \<Rightarrow> (pydict \<times> int option \<times> datetime) list \<Rightarrow>
   memory_manager" where
  "store_short_term_calls L mm conversation_id lead_id [] = mm"
| "store_short_term_calls L mm conversation_id lead_id ((context, ttl, now) # calls) =
     store_short_term_calls L
       (snd (store_short_term L mm conversation_id lead_id context ttl now))
       conversation_id lead_id calls"

subsection \<open>Concrete inputs\<close>

text \<open>
  A stand-in for the library functions and a few small states, for evaluating the model
  at concrete inputs.
\<close>

definition sample_str :: "pyobj \<Rightarrow> string" where
  "sample_str v = (case v of OInt i \<Rightarrow> (if i = 1 then ''1'' else ''0'') | _ \<Rightarrow> ''2024-01-01 00:00:00'')"

definition sample_now :: datetime where
  "sample_now = 63902822400000000"

definition sample_pylib :: pylib where
  "sample_pylib = \<lparr>str_of = (\<lambda>v. case v of PStr s \<Rightarrow> s | _ \<Rightarrow> []),
                     json_dumps = (\<lambda>v. []), isoformat = (\<lambda>t. []),
                     md5_int = (\<lambda>s. length s)\<rparr>"

definition sample_context :: pydict where
  "sample_context = [(''preferred_channel'', PStr ''email''), (''lead_source'', PStr ''web'')]"

definition sample_data :: memory_data where
  "sample_data = \<lparr>md_conversation_id = ''c1'', md_lead_id = ''lead1'',
                    md_context = sample_context,
                    md_last_updated = 0, md_interaction_count = 1\<rparr>"

definition empty_manager :: memory_manager where
  "empty_manager = \<lparr>short_term = Map.empty, long_term = Map.empty, long_term_log = [],
                      episodic = \<lparr>embedding_model = None, em_memory_store = []\<rparr>,
                      semantic = semantic_initialize\<rparr>"

definition expired_manager :: memory_manager where
  "expired_manager =
     empty_manager\<lparr>short_term := [''c1'' \<mapsto> \<lparr>data = sample_data, expires_at = Some 0\<rparr>]\<rparr>"

definition sample_interaction :: interaction_record where
  "sample_interaction = \<lparr>ir_conversation_id = ''c1'', ir_interaction_count = 5,
                           ir_context_summary = ''Source: web'', ir_timestamp = None\<rparr>"

definition sample_low :: episode where
  "sample_low = \<lparr>ep_scenario = Some ''demo'', ep_agent_type = Some ''triage'',
                   ep_action_sequence = None, ep_outcome_score = Some (5 / 10),
                   ep_context = None, ep_timestamp = Some 0, ep_episode_id = None,
                   ep_stored_at = None\<rparr>"

definition sample_mid :: episode where
  "sample_mid = sample_low\<lparr>ep_outcome_score := Some (75 / 100)\<rparr>"

definition sample_good :: episode where
  "sample_good = sample_low\<lparr>ep_outcome_score := Some (9 / 10)\<rparr>"

definition sample_store :: episodic_memory where
  "sample_store =
     \<lparr>embedding_model = None,
      em_memory_store =
        [\<lparr>st_id = ''u1'', st_embedding = [], st_text = ''scenario: demo'',
          st_metadata = sample_good\<lparr>ep_timestamp := Some 1\<rparr>\<rparr>,
         \<lparr>st_id = ''u2'', st_embedding = [], st_text = ''scenario: demo'',
          st_metadata = sample_mid\<lparr>ep_timestamp := Some 2\<rparr>\<rparr>,
         \<lparr>st_id = ''u3'', st_embedding = [], st_text = ''scenario: demo'',
          st_metadata = sample_low\<lparr>ep_timestamp := Some 3\<rparr>\<rparr>]\<rparr>"

definition sample_triple :: "rat \<Rightarrow> triple" where
  "sample_triple w = \<lparr>t_subject = ''A'', t_predicate = ''rel'', t_object = ''B'',
                       t_weight = Some w, t_source = Some ''system''\<rparr>"

definition sample_triple_b_c :: triple where
  "sample_triple_b_c = \<lparr>t_subject = ''B'', t_predicate = ''rel'', t_object = ''C'',
                         t_weight = Some 1, t_source = Some ''system''\<rparr>"



definition sample_profile :: profile where
  "sample_profile =
     \<lparr>p_lead_id = ''lead1'',
      p_preferences = [(''communication_channel'', PStr ''phone''), (''tone'', PStr ''formal'')],
      p_interaction_history = [sample_interaction\<lparr>ir_timestamp := Some 0\<rparr>],
      p_last_updated = 0, p_rfm_score = 0\<rparr>"

definition profiled_manager :: memory_manager where
  "profiled_manager = empty_manager\<lparr>long_term := [''lead1'' \<mapsto> sample_profile]\<rparr>"

section \<open>Short-term expiry\<close>

lemma short_term_store_ok:
  assumes "dumps d = Some s" and "ttl_truthy ttl \<longrightarrow> \<not> expiry_overflows now (the ttl)"
  shows "short_term_store dumps ms key d ttl now =
           (True, ms(key \<mapsto> \<lparr>data = s,
              expires_at = (if ttl_truthy ttl then Some (now + timedelta_seconds (the ttl)) else None)\<rparr>))"
  using assms by (auto simp: short_term_store_def Let_def)

lemma short_term_store_overflow:
  assumes "ttl_truthy ttl" and "expiry_overflows now (the ttl)"
  shows "short_term_store dumps ms key d ttl now = (False, ms)"
  using assms by (simp add: short_term_store_def split: option.splits)

lemma short_term_get_live:
  "ms key = Some e \<Longrightarrow> expires_at e = Some x \<Longrightarrow> now \<le> x \<Longrightarrow>
   short_term_get loads ms key now = (Some (loads (data e)), ms)"
  by (simp add: short_term_get_def)

lemma short_term_get_expired:
  "ms key = Some e \<Longrightarrow> expires_at e = Some x \<Longrightarrow> x < now \<Longrightarrow>
   short_term_get loads ms key now = (None, ms(key := None))"
  by (simp add: short_term_get_def)

lemma short_term_get_absent:
  "ms key = None \<Longrightarrow> short_term_get loads ms key now = (None, ms)"
  by (simp add: short_term_get_def)

lemma short_term_get_forever:
  "ms key = Some e \<Longrightarrow> expires_at e = None \<Longrightarrow>
   short_term_get loads ms key now = (Some (loads (data e)), ms)"
  by (simp add: short_term_get_def)

lemma store_get_expiry:
  assumes "0 < ttl" and "dumps d = Some s" and "\<not> expiry_overflows t0 ttl"
      and "ms1 = snd (short_term_store dumps ms key d (Some ttl) t0)"
  shows "fst (short_term_store dumps ms key d (Some ttl) t0) = True"
    and "t \<le> t0 + timedelta_seconds ttl \<Longrightarrow> short_term_get loads ms1 key t = (Some (loads s), ms1)"
    and "t0 + timedelta_seconds ttl < t \<Longrightarrow> fst (short_term_get loads ms1 key t) = None"
    and "t0 + timedelta_seconds ttl < t \<Longrightarrow>
         fst (short_term_get loads (snd (short_term_get loads ms1 key t)) key t') = None"
proof -
  have st: "short_term_store dumps ms key d (Some ttl) t0 =
              (True, ms(key \<mapsto> \<lparr>data = s, expires_at = Some (t0 + timedelta_seconds ttl)\<rparr>))"
    using assms(1-3) by (subst short_term_store_ok [where s = s]) simp_all
  show "fst (short_term_store dumps ms key d (Some ttl) t0) = True" by (simp add: st)
  show "short_term_get loads ms1 key t = (Some (loads s), ms1)" if "t \<le> t0 + timedelta_seconds ttl"
    using that by (simp add: assms(4) st short_term_get_def)
  show "fst (short_term_get loads ms1 key t) = None" if "t0 + timedelta_seconds ttl < t"
    using that by (simp add: assms(4) st short_term_get_def)
  show "fst (short_term_get loads (snd (short_term_get loads ms1 key t)) key t') = None"
    if "t0 + timedelta_seconds ttl < t"
    using that by (simp add: assms(4) st short_term_get_def)
qed

text \<open>
  Claim C2, as stated, fails at three inputs. At the instant at which exactly \<open>ttl\<close>
  seconds have elapsed the entry is still returned: the test of \<open>get\<close> is
  \<open>datetime.now() > entry["expires_at"]\<close>, strict. A payload holding a tuple comes back
  with a list in its place, since \<open>get\<close> returns \<open>json.loads\<close> of the serialised text.
  With \<open>ttl = 10 ** 12\<close> the expiry instant lies beyond \<open>datetime.max\<close>: the sum raises
  \<open>OverflowError\<close>, \<open>store\<close> returns False and \<open>get\<close> returns absent at once.
\<close>

theorem C2_expiry_counterexample:
  "fst (short_term_get json_loads
          (snd (short_term_store (json_dumps_default_str sample_str) Map.empty ''k''
                  (ODict [(OStr ''a'', OInt 1)]) (Some 5) sample_now))
          ''k'' (sample_now + timedelta_seconds 5))
     = Some (ODict [(OStr ''a'', OInt 1)])
   \<and> fst (short_term_get json_loads
            (snd (short_term_store (json_dumps_default_str sample_str) Map.empty ''k''
                    (ODict [(OStr ''a'', OTuple [OInt 1, OInt 2])]) (Some 5) sample_now))
            ''k'' sample_now)
     = Some (ODict [(OStr ''a'', OList [OInt 1, OInt 2])])
   \<and> fst (short_term_store (json_dumps_default_str sample_str) Map.empty ''k''
            (ODict [(OStr ''a'', OInt 1)]) (Some 1000000000000) sample_now) = False
   \<and> fst (short_term_get json_loads
            (snd (short_term_store (json_dumps_default_str sample_str) Map.empty ''k''
                    (ODict [(OStr ''a'', OInt 1)]) (Some 1000000000000) sample_now))
            ''k'' sample_now) = None"
  by (simp add: short_term_get_def short_term_store_def timedelta_seconds_def sample_now_def
        expiry_overflows_def timedelta_overflows_def datetime_max_def)

text \<open>
  Claim C2, amended: for every key, every data map that is JSON-representable
  (\<open>json.dumps(data, default=str)\<close> serialises it and \<open>json.loads\<close> reads it back
  unchanged) and every ttl > 0 whose expiry instant \<open>now + ttl\<close> is a representable
  \<open>datetime\<close>, \<open>store\<close> returns True; a \<open>get\<close> made while at most \<open>ttl\<close> seconds have
  elapsed since the \<open>store\<close> returns the data and leaves the store as it is; a \<open>get\<close> made
  once more than \<open>ttl\<close> seconds have elapsed returns absent, and every later \<open>get\<close> (at
  whatever instant) returns absent too. A short-term read never returns data whose
  expiry instant has passed.
\<close>

theorem C2_store_get_expiry:
  assumes "0 < ttl"
      and "json_dumps_default_str str d = Some s" and "json_loads s = d"
      and "\<not> expiry_overflows t0 ttl"
      and "ms1 = snd (short_term_store (json_dumps_default_str str) ms key d (Some ttl) t0)"
  shows "fst (short_term_store (json_dumps_default_str str) ms key d (Some ttl) t0) = True
       \<and> (\<forall>t. t \<le> t0 + timedelta_seconds ttl \<longrightarrow>
             short_term_get json_loads ms1 key t = (Some d, ms1))
       \<and> (\<forall>t. t0 + timedelta_seconds ttl < t \<longrightarrow>
             fst (short_term_get json_loads ms1 key t) = None
           \<and> (\<forall>t'. fst (short_term_get json_loads (snd (short_term_get json_loads ms1 key t)) key t')
                     = None))"
proof -
  note r = store_get_expiry [OF assms(1,2,4,5)]
  have "short_term_get json_loads ms1 key t = (Some d, ms1)" if "t \<le> t0 + timedelta_seconds ttl" for t
    using r(2) [OF that, of json_loads] assms(3) by simp
  with r(1) r(3) r(4) show ?thesis by blast
qed

theorem C2_store_get_expiry_witness:
  "(0::int) < 5
   \<and> json_loads (the (json_dumps_default_str sample_str (ODict [(OStr ''a'', OList [OInt 1, OStr ''x''])])))
       = ODict [(OStr ''a'', OList [OInt 1, OStr ''x''])]
   \<and> \<not> expiry_overflows sample_now 5
   \<and> fst (short_term_get json_loads
            (snd (short_term_store (json_dumps_default_str sample_str) Map.empty ''k''
                    (ODict [(OStr ''a'', OList [OInt 1, OStr ''x''])]) (Some 5) sample_now))
            ''k'' (sample_now + 4000000))
       = Some (ODict [(OStr ''a'', OList [OInt 1, OStr ''x''])])
   \<and> fst (short_term_get json_loads
            (snd (short_term_store (json_dumps_default_str sample_str) Map.empty ''k''
                    (ODict [(OStr ''a'', OList [OInt 1, OStr ''x''])]) (Some 5) sample_now))
            ''k'' (sample_now + 5000001))
       = None"
proof -
  let ?d = "ODict [(OStr ''a'', OList [OInt 1, OStr ''x''])]"
  have h1: "(0::int) < 5" by simp
  have h2: "json_dumps_default_str sample_str ?d = Some (PDict [(''a'', PList [PInt 1, PStr ''x''])])"
    by simp
  have h3: "json_loads (PDict [(''a'', PList [PInt 1, PStr ''x''])]) = ?d" by simp
  have h4: "\<not> expiry_overflows sample_now 5"
    by (simp add: expiry_overflows_def timedelta_overflows_def timedelta_seconds_def
          datetime_max_def sample_now_def)
  have a: "sample_now + 4000000 \<le> sample_now + timedelta_seconds 5"
    and b: "sample_now + timedelta_seconds 5 < sample_now + 5000001"
    by (simp_all add: timedelta_seconds_def)
  from C2_store_get_expiry [OF h1 h2 h3 h4 refl, of Map.empty "''k''"] a b h4
  show ?thesis by (simp add: h2)
qed

section \<open>Coordinator: short-term writes and consolidation\<close>

lemma ttl_or_default_truthy: "ttl_truthy (Some (ttl_or_default ttl))"
  by (cases ttl) (simp_all add: ttl_or_default_def)

lemma map_of_dict_set: "map_of (dict_set k v d) k' = (if k' = k then Some v else map_of d k')"
  by (induction d) auto

lemma map_of_dict_update:
  assumes "distinct (map fst us)"
  shows "map_of (dict_update d us) k =
           (case map_of us k of Some v \<Rightarrow> Some v | None \<Rightarrow> map_of d k)"
  using assms
proof (induction us arbitrary: d)
  case Nil
  show ?case by simp
next
  case (Cons u us)
  obtain k' v' where u: "u = (k', v')" by (cases u)
  from Cons.prems have d: "distinct (map fst us)" and n: "map_of us k' = None"
    by (auto simp: u map_of_eq_None_iff)
  show ?case
    using n by (auto simp: u Cons.IH [OF d] map_of_dict_set split: option.splits)
qed

lemma map_of_copy_key:
  "map_of (copy_key ctx src dst preferences) k =
     (if k = dst then (case map_of ctx src of None \<Rightarrow> map_of preferences k | Some v \<Rightarrow> Some v)
      else map_of preferences k)"
  by (simp add: copy_key_def map_of_dict_set split: option.splits)

lemma map_of_extract_preferences:
  "map_of (extract_preferences ctx) k = spec_extracted_preference ctx k"
proof -
  consider "k = ''communication_channel''" | "k = ''contact_time''" | "k = ''interests''"
    | "k = ''communication_style''" | "k = ''product_interests''"
    | "k \<noteq> ''communication_channel''" "k \<noteq> ''contact_time''" "k \<noteq> ''interests''"
      "k \<noteq> ''communication_style''" "k \<noteq> ''product_interests''"
    by blast
  then show ?thesis
    by cases
      (simp_all add: extract_preferences_def map_of_copy_key spec_extracted_preference_def
         recognized_preference_keys_def Let_def split: option.splits)
qed

lemma extract_preferences_distinct: "distinct (map fst (extract_preferences ctx))"
  by (simp add: extract_preferences_def copy_key_def Let_def split: option.splits)

lemma map_of_merged_preferences:
  "map_of (dict_update existing (extract_preferences ctx)) =
   spec_merged_preferences (map_of existing) ctx"
  by (rule ext)
     (simp add: map_of_dict_update [OF extract_preferences_distinct] spec_merged_preferences_def
        map_of_extract_preferences)


lemma store_short_term_fresh:
  assumes "fst (short_term_get memory_data_loads (short_term mm) cid t) = None"
      and "\<not> expiry_overflows t (ttl_or_default ttl)"
  shows "store_short_term L mm cid lid c ttl t =
           (True, mm\<lparr>short_term := (short_term mm)(cid \<mapsto>
              \<lparr>data = \<lparr>md_conversation_id = cid, md_lead_id = lid, md_context = c,
                        md_last_updated = t, md_interaction_count = 1\<rparr>,
               expires_at = Some (t + timedelta_seconds (ttl_or_default ttl))\<rparr>)\<rparr>)"
  using assms ttl_or_default_truthy [of ttl]
  by (auto simp: store_short_term_def get_short_term_def short_term_get_def short_term_store_def
        memory_data_dumps_def memory_data_loads_def short_to_long_threshold_def Let_def
        split: option.splits if_splits)

lemma store_short_term_live:
  assumes "short_term mm cid = Some \<lparr>data = d, expires_at = Some x\<rparr>" and "t \<le> x"
  shows "store_short_term L mm cid lid c ttl t =
           (let md = \<lparr>md_conversation_id = cid, md_lead_id = lid, md_context = c,
                        md_last_updated = t, md_interaction_count = md_interaction_count d + 1\<rparr>;
                ok = (\<not> expiry_overflows t (ttl_or_default ttl));
                mm1 = (if ok then mm\<lparr>short_term := (short_term mm)(cid \<mapsto>
                        \<lparr>data = md, expires_at = Some (t + timedelta_seconds (ttl_or_default ttl))\<rparr>)\<rparr>
                       else mm)
            in (ok, if 5 \<le> md_interaction_count d + 1
                    then snd (consolidate_to_long_term L mm1 cid md t) else mm1))"
  using assms ttl_or_default_truthy [of ttl]
  by (simp add: store_short_term_def get_short_term_def short_term_get_def short_term_store_def
        memory_data_dumps_def memory_data_loads_def short_to_long_threshold_def Let_def)

lemma consolidate_writes_once:
  assumes "md_lead_id md \<noteq> []"
  shows "snd (consolidate_to_long_term L mm cid md t) =
     (let r = \<lparr>ir_conversation_id = cid, ir_interaction_count = md_interaction_count md,
                ir_context_summary = summarize_context L (md_context md),
                ir_timestamp = Some (md_last_updated md)\<rparr>;
          prefs = (case long_term mm (md_lead_id md) of
                     None \<Rightarrow> extract_preferences (md_context md)
                   | Some ex \<Rightarrow> dict_update (p_preferences ex) (extract_preferences (md_context md)));
          hist = (case long_term mm (md_lead_id md) of
                    None \<Rightarrow> [r] | Some ex \<Rightarrow> p_interaction_history ex @ [r]);
          P = \<lparr>p_lead_id = md_lead_id md, p_preferences = prefs, p_interaction_history = hist,
               p_last_updated = t, p_rfm_score = calculate_rfm_score (md_lead_id md) hist t\<rparr>
      in mm\<lparr>long_term := (long_term mm)(md_lead_id md \<mapsto> P),
            long_term_log := long_term_log mm @ [(md_lead_id md, P)]\<rparr>)"
  using assms
  by (simp add: consolidate_to_long_term_def store_long_term_def long_term_store_def
        get_long_term_def Let_def split: option.splits)

lemma consolidate_short_term:
  "short_term (snd (consolidate_to_long_term L mm cid md t)) = short_term mm"
  by (simp add: consolidate_to_long_term_def store_long_term_def long_term_store_def Let_def
        split: option.splits)

lemma store_short_term_entry:
  assumes "\<not> expiry_overflows t (ttl_or_default ttl)"
  shows "\<exists>n. short_term (snd (store_short_term L mm cid lid c ttl t)) cid =
     Some \<lparr>data = \<lparr>md_conversation_id = cid, md_lead_id = lid, md_context = c,
                    md_last_updated = t, md_interaction_count = n\<rparr>,
           expires_at = Some (t + timedelta_seconds (ttl_or_default ttl))\<rparr>"
  using assms ttl_or_default_truthy [of ttl]
  by (auto simp: store_short_term_def get_short_term_def short_term_get_def short_term_store_def
        memory_data_dumps_def memory_data_loads_def
        consolidate_short_term Let_def split: option.splits if_splits prod.splits)

text \<open>
  Claim C1, as stated, fails at three inputs, at each of which five \<open>store_short_term\<close>
  calls starting from an empty store write nothing to long-term memory: with the empty
  \<open>lead_id\<close> (\<open>if not lead_id: return False\<close>); with calls two hours apart under the
  default ttl of one hour, where every call finds the previous entry expired and counts
  from 1 again; and with \<open>ttl = 10 ** 12\<close>, where every \<open>store\<close> fails on the overflow of
  the expiry instant, so that no entry is ever found.
\<close>

theorem C1_consolidation_counterexample:
  "long_term_log (store_short_term_calls sample_pylib empty_manager ''c1'' []
       [(sample_context, None, sample_now), (sample_context, None, sample_now + 1),
        (sample_context, None, sample_now + 2), (sample_context, None, sample_now + 3),
        (sample_context, None, sample_now + 4)]) = []
   \<and> long_term_log (store_short_term_calls sample_pylib empty_manager ''c1'' ''lead1''
       [(sample_context, None, sample_now),
        (sample_context, None, sample_now + timedelta_seconds 7200),
        (sample_context, None, sample_now + timedelta_seconds 14400),
        (sample_context, None, sample_now + timedelta_seconds 21600),
        (sample_context, None, sample_now + timedelta_seconds 28800)]) = []
   \<and> long_term_log (store_short_term_calls sample_pylib empty_manager ''c1'' ''lead1''
       [(sample_context, Some 1000000000000, sample_now),
        (sample_context, Some 1000000000000, sample_now + 1),
        (sample_context, Some 1000000000000, sample_now + 2),
        (sample_context, Some 1000000000000, sample_now + 3),
        (sample_context, Some 1000000000000, sample_now + 4)]) = []"
  by code_simp


text \<open>
  Claim C1, amended: for every conversation and every non-empty lead, starting with no
  active short-term entry for the conversation, five calls of \<open>store_short_term\<close>, each
  made before the entry written by the previous call has expired and the first four with
  a ttl whose expiry instant is representable (so that they store), perform exactly one
  call of \<open>LongTermMemory.store\<close>, in the fifth call: the first four leave the long-term
  tier and its write trace as they were, the fifth appends one write for that lead. The
  profile written holds, under every key, the preference extracted from the recognised
  keys of the fifth call's context if there is one and otherwise the preference of the
  existing profile, and the existing interaction history with one summarised
  interaction record appended.
\<close>

theorem C1_consolidation_at_threshold:
  assumes fresh: "fst (get_short_term mm cid t1) = None"
      and lead: "lid \<noteq> []"
      and stored: "\<not> expiry_overflows t1 (ttl_or_default ttl1)"
                  "\<not> expiry_overflows t2 (ttl_or_default ttl2)"
                  "\<not> expiry_overflows t3 (ttl_or_default ttl3)"
                  "\<not> expiry_overflows t4 (ttl_or_default ttl4)"
      and live: "t2 \<le> t1 + timedelta_seconds (ttl_or_default ttl1)"
                "t3 \<le> t2 + timedelta_seconds (ttl_or_default ttl2)"
                "t4 \<le> t3 + timedelta_seconds (ttl_or_default ttl3)"
                "t5 \<le> t4 + timedelta_seconds (ttl_or_default ttl4)"
      and calls: "s1 = snd (store_short_term L mm cid lid c1 ttl1 t1)"
                 "s2 = snd (store_short_term L s1 cid lid c2 ttl2 t2)"
                 "s3 = snd (store_short_term L s2 cid lid c3 ttl3 t3)"
                 "s4 = snd (store_short_term L s3 cid lid c4 ttl4 t4)"
                 "s5 = snd (store_short_term L s4 cid lid c5 ttl5 t5)"
      and irec: "r = \<lparr>ir_conversation_id = cid, ir_interaction_count = 5,
                      ir_context_summary = summarize_context L c5, ir_timestamp = Some t5\<rparr>"
      and existing: "old_preferences = (case long_term mm lid of
                                          None \<Rightarrow> Map.empty
                                        | Some ex \<Rightarrow> map_of (p_preferences ex))"
                    "hist = (case long_term mm lid of
                               None \<Rightarrow> [r] | Some ex \<Rightarrow> p_interaction_history ex @ [r])"
  shows "long_term_log s1 = long_term_log mm \<and> long_term_log s2 = long_term_log mm
       \<and> long_term_log s3 = long_term_log mm \<and> long_term_log s4 = long_term_log mm
       \<and> long_term s4 = long_term mm
       \<and> (\<exists>P. long_term_log s5 = long_term_log mm @ [(lid, P)]
              \<and> long_term s5 = (long_term mm)(lid \<mapsto> P)
              \<and> p_lead_id P = lid
              \<and> map_of (p_preferences P) = spec_merged_preferences old_preferences c5
              \<and> p_interaction_history P = hist
              \<and> p_last_updated P = t5
              \<and> p_rfm_score P = calculate_rfm_score lid hist t5)"
proof -
  let ?e = "\<lambda>c t n ttl. \<lparr>data = \<lparr>md_conversation_id = cid, md_lead_id = lid, md_context = c,
                        md_last_updated = t, md_interaction_count = n\<rparr>,
               expires_at = Some (t + timedelta_seconds (ttl_or_default ttl))\<rparr>"
  have s1: "s1 = mm\<lparr>short_term := (short_term mm)(cid \<mapsto> ?e c1 t1 1 ttl1)\<rparr>"
    unfolding calls(1) using fresh stored(1)
    by (subst store_short_term_fresh) (simp_all add: get_short_term_def split: prod.splits)
  have s2: "s2 = mm\<lparr>short_term := (short_term mm)(cid \<mapsto> ?e c2 t2 2 ttl2)\<rparr>"
    unfolding calls(2) s1 using live(1) stored(2)
    by (subst store_short_term_live [where d = "data (?e c1 t1 1 ttl1)"]) (simp_all add: Let_def)
  have s3: "s3 = mm\<lparr>short_term := (short_term mm)(cid \<mapsto> ?e c3 t3 3 ttl3)\<rparr>"
    unfolding calls(3) s2 using live(2) stored(3)
    by (subst store_short_term_live [where d = "data (?e c2 t2 2 ttl2)"]) (simp_all add: Let_def)
  have s4: "s4 = mm\<lparr>short_term := (short_term mm)(cid \<mapsto> ?e c4 t4 4 ttl4)\<rparr>"
    unfolding calls(4) s3 using live(3) stored(4)
    by (subst store_short_term_live [where d = "data (?e c3 t3 3 ttl3)"]) (simp_all add: Let_def)
  let ?md = "\<lparr>md_conversation_id = cid, md_lead_id = lid, md_context = c5,
                md_last_updated = t5, md_interaction_count = 5\<rparr>"
  let ?prefs = "case long_term mm lid of
                  None \<Rightarrow> extract_preferences c5
                | Some ex \<Rightarrow> dict_update (p_preferences ex) (extract_preferences c5)"
  let ?P = "\<lparr>p_lead_id = lid, p_preferences = ?prefs, p_interaction_history = hist,
             p_last_updated = t5, p_rfm_score = calculate_rfm_score lid hist t5\<rparr>"
  obtain mm5 where s5: "s5 = snd (consolidate_to_long_term L mm5 cid ?md t5)"
      and mm5: "long_term mm5 = long_term mm" "long_term_log mm5 = long_term_log mm"
  proof (cases "expiry_overflows t5 (ttl_or_default ttl5)")
    case True
    have "s5 = snd (consolidate_to_long_term L s4 cid ?md t5)"
      unfolding calls(5) using live(4) True
      by (subst store_short_term_live [where d = "data (?e c4 t4 4 ttl4)" and x = "t4 + timedelta_seconds (ttl_or_default ttl4)"])
         (simp_all add: Let_def s4)
    then show ?thesis using that [of s4] by (simp add: s4)
  next
    case False
    let ?mm = "mm\<lparr>short_term := (short_term mm)(cid \<mapsto> ?e c5 t5 5 ttl5)\<rparr>"
    have "s5 = snd (consolidate_to_long_term L ?mm cid ?md t5)"
      unfolding calls(5) s4 using live(4) False
      by (subst store_short_term_live [where d = "data (?e c4 t4 4 ttl4)"]) (simp_all add: Let_def)
    then show ?thesis using that [of ?mm] by simp
  qed
  have w: "long_term_log s5 = long_term_log mm @ [(lid, ?P)]"
          "long_term s5 = (long_term mm)(lid \<mapsto> ?P)"
    unfolding s5 using lead consolidate_writes_once [of ?md L mm5 cid t5] mm5
    by (cases "long_term mm lid"; simp add: Let_def irec existing)+
  have m: "map_of ?prefs = spec_merged_preferences old_preferences c5"
  proof (cases "long_term mm lid")
    case None
    have "map_of (extract_preferences c5) = spec_merged_preferences Map.empty c5"
      by (rule ext) (simp add: spec_merged_preferences_def map_of_extract_preferences
            split: option.splits)
    with None show ?thesis by (simp add: existing)
  next
    case (Some ex)
    then show ?thesis by (simp add: existing map_of_merged_preferences)
  qed
  have "\<exists>P. long_term_log s5 = long_term_log mm @ [(lid, P)]
              \<and> long_term s5 = (long_term mm)(lid \<mapsto> P)
              \<and> p_lead_id P = lid
              \<and> map_of (p_preferences P) = spec_merged_preferences old_preferences c5
              \<and> p_interaction_history P = hist
              \<and> p_last_updated P = t5
              \<and> p_rfm_score P = calculate_rfm_score lid hist t5"
    by (rule exI [of _ ?P]) (simp add: w m)
  then show ?thesis
    by (simp add: s1 s2 s3 s4)
qed


theorem C1_consolidation_at_threshold_witness:
  "fst (get_short_term profiled_manager ''c1'' sample_now) = None
   \<and> long_term_log (store_short_term_calls sample_pylib profiled_manager ''c1'' ''lead1''
         [(sample_context, None, sample_now), (sample_context, None, sample_now + 1),
          (sample_context, None, sample_now + 2), (sample_context, None, sample_now + 3),
          (sample_context, None, sample_now + 4)])
     = [(''lead1'',
         \<lparr>p_lead_id = ''lead1'',
          p_preferences = [(''communication_channel'', PStr ''email''), (''tone'', PStr ''formal'')],
          p_interaction_history =
            [sample_interaction\<lparr>ir_timestamp := Some 0\<rparr>,
             \<lparr>ir_conversation_id = ''c1'', ir_interaction_count = 5,
              ir_context_summary = ''Source: web'', ir_timestamp = Some (sample_now + 4)\<rparr>],
          p_last_updated = sample_now + 4, p_rfm_score = 567 / 1000\<rparr>)]
   \<and> map_of [(''communication_channel'', PStr ''email''), (''tone'', PStr ''formal'')]
     = spec_merged_preferences (map_of (p_preferences sample_profile)) sample_context"
proof -
  let ?calls = "[(sample_context, None, sample_now), (sample_context, None, sample_now + 1),
          (sample_context, None, sample_now + 2), (sample_context, None, sample_now + 3),
          (sample_context, None, sample_now + 4)]"
  let ?s5 = "store_short_term_calls sample_pylib profiled_manager ''c1'' ''lead1'' ?calls"
  have fresh: "fst (get_short_term profiled_manager ''c1'' sample_now) = None"
    by code_simp
  have lead: "''lead1'' \<noteq> []" by simp
  have stored: "\<not> expiry_overflows sample_now (ttl_or_default None)"
      "\<not> expiry_overflows (sample_now + 1) (ttl_or_default None)"
      "\<not> expiry_overflows (sample_now + 2) (ttl_or_default None)"
      "\<not> expiry_overflows (sample_now + 3) (ttl_or_default None)"
    by code_simp+
  have live: "sample_now + 1 \<le> sample_now + timedelta_seconds (ttl_or_default None)"
      "sample_now + 2 \<le> sample_now + 1 + timedelta_seconds (ttl_or_default None)"
      "sample_now + 3 \<le> sample_now + 2 + timedelta_seconds (ttl_or_default None)"
      "sample_now + 4 \<le> sample_now + 3 + timedelta_seconds (ttl_or_default None)"
    by (simp_all add: ttl_or_default_def timedelta_seconds_def)
  have old: "long_term profiled_manager ''lead1'' = Some sample_profile"
    by (simp add: profiled_manager_def)
  have ev: "long_term_log ?s5
     = [(''lead1'',
         \<lparr>p_lead_id = ''lead1'',
          p_preferences = [(''communication_channel'', PStr ''email''), (''tone'', PStr ''formal'')],
          p_interaction_history =
            [sample_interaction\<lparr>ir_timestamp := Some 0\<rparr>,
             \<lparr>ir_conversation_id = ''c1'', ir_interaction_count = 5,
              ir_context_summary = ''Source: web'', ir_timestamp = Some (sample_now + 4)\<rparr>],
          p_last_updated = sample_now + 4, p_rfm_score = 567 / 1000\<rparr>)]"
    by code_simp
  from C1_consolidation_at_threshold [OF fresh lead stored live refl refl refl refl refl refl refl refl,
      of sample_pylib sample_context sample_context sample_context sample_context sample_context None]
  obtain P where P: "long_term_log ?s5 = long_term_log profiled_manager @ [(''lead1'', P)]"
      "map_of (p_preferences P) = spec_merged_preferences (map_of (p_preferences sample_profile)) sample_context"
    by (auto simp: old)
  from P(1) ev have "P = \<lparr>p_lead_id = ''lead1'',
          p_preferences = [(''communication_channel'', PStr ''email''), (''tone'', PStr ''formal'')],
          p_interaction_history =
            [sample_interaction\<lparr>ir_timestamp := Some 0\<rparr>,
             \<lparr>ir_conversation_id = ''c1'', ir_interaction_count = 5,
              ir_context_summary = ''Source: web'', ir_timestamp = Some (sample_now + 4)\<rparr>],
          p_last_updated = sample_now + 4, p_rfm_score = 567 / 1000\<rparr>"
    by (simp add: profiled_manager_def empty_manager_def)
  with P(2) fresh ev show ?thesis by simp
qed

section \<open>Default time-to-live\<close>

text \<open>
  Claim C8, as stated, on \<open>ShortTermMemory.store\<close>: with the ttl argument unspecified the
  entry gets no expiry instant at all (\<open>expires_at\<close> is \<open>None\<close>), so it is still returned
  3601 seconds after the store.
\<close>

theorem C8_store_without_ttl_counterexample:
  "fst (short_term_get json_loads
          (snd (short_term_store (json_dumps_default_str sample_str) Map.empty ''k''
                  (ODict [(OStr ''a'', OInt 1)]) None sample_now))
          ''k'' (sample_now + timedelta_seconds 3601))
   = Some (ODict [(OStr ''a'', OInt 1)])"
  by (simp add: short_term_get_def short_term_store_def)

text \<open>
  Claim C8, amended: the default of 3600 seconds is applied by the coordinator.
  \<open>store_short_term\<close> with the ttl argument unspecified (or zero), at a clock reading
  from which one hour later is still a representable \<open>datetime\<close>, behaves as if ttl were
  3600 seconds: \<open>get_short_term\<close> while at most 3600 seconds have elapsed returns the
  stored record, and once more than 3600 seconds have elapsed it returns absent.
  \<open>ShortTermMemory.store\<close> itself, with the ttl argument unspecified, stores the
  (serialisable) data without expiry: a later \<open>get\<close> returns what \<open>json.loads\<close> reads from
  the serialised data, at every instant.
\<close>

theorem C8_default_ttl_at_coordinator:
  assumes "\<not> ttl_truthy ttl" and "\<not> expiry_overflows t0 3600"
      and "s1 = snd (store_short_term L mm cid lid c ttl t0)"
  shows "(\<forall>t. t \<le> t0 + timedelta_seconds 3600 \<longrightarrow>
            (\<exists>n. get_short_term s1 cid t =
               (Some \<lparr>md_conversation_id = cid, md_lead_id = lid, md_context = c,
                       md_last_updated = t0, md_interaction_count = n\<rparr>, s1)))
       \<and> (\<forall>t. t0 + timedelta_seconds 3600 < t \<longrightarrow> fst (get_short_term s1 cid t) = None)
       \<and> (\<forall>ms key d s t. json_dumps_default_str str d = Some s \<longrightarrow>
             short_term_get json_loads
               (snd (short_term_store (json_dumps_default_str str) ms key d None t0)) key t
             = (Some (json_loads s),
                snd (short_term_store (json_dumps_default_str str) ms key d None t0)))"
proof -
  from assms(1) have d: "ttl_or_default ttl = 3600" by (simp add: ttl_or_default_def)
  obtain n where e: "short_term s1 cid =
     Some \<lparr>data = \<lparr>md_conversation_id = cid, md_lead_id = lid, md_context = c,
                    md_last_updated = t0, md_interaction_count = n\<rparr>,
           expires_at = Some (t0 + timedelta_seconds 3600)\<rparr>"
    using store_short_term_entry [of t0 ttl L mm cid lid c] assms(2) unfolding assms(3) d by blast
  have 1: "\<forall>t. t \<le> t0 + timedelta_seconds 3600 \<longrightarrow>
            (\<exists>n. get_short_term s1 cid t =
               (Some \<lparr>md_conversation_id = cid, md_lead_id = lid, md_context = c,
                       md_last_updated = t0, md_interaction_count = n\<rparr>, s1))"
    using e by (auto simp: get_short_term_def short_term_get_def memory_data_loads_def)
  have 2: "\<forall>t. t0 + timedelta_seconds 3600 < t \<longrightarrow> fst (get_short_term s1 cid t) = None"
    using e by (simp add: get_short_term_def short_term_get_def)
  have 3: "\<forall>ms key d s t. json_dumps_default_str str d = Some s \<longrightarrow>
             short_term_get json_loads
               (snd (short_term_store (json_dumps_default_str str) ms key d None t0)) key t
             = (Some (json_loads s),
                snd (short_term_store (json_dumps_default_str str) ms key d None t0))"
    by (simp add: short_term_get_def short_term_store_def)
  from 1 2 3 show ?thesis by blast
qed

theorem C8_default_ttl_at_coordinator_witness:
  "\<not> expiry_overflows sample_now 3600
   \<and> fst (get_short_term (snd (store_short_term sample_pylib empty_manager
          ''c1'' ''lead1'' sample_context None sample_now)) ''c1'' (sample_now + 3600000000)) \<noteq> None
   \<and> fst (get_short_term (snd (store_short_term sample_pylib empty_manager
          ''c1'' ''lead1'' sample_context None sample_now)) ''c1'' (sample_now + 3600000001)) = None"
proof -
  let ?s1 = "snd (store_short_term sample_pylib empty_manager ''c1'' ''lead1'' sample_context
                    None sample_now)"
  have h: "\<not> expiry_overflows sample_now 3600" by code_simp
  have n: "\<not> ttl_truthy None" by simp
  have a: "sample_now + 3600000000 \<le> sample_now + timedelta_seconds 3600"
    and b: "sample_now + timedelta_seconds 3600 < sample_now + 3600000001"
    by (simp_all add: timedelta_seconds_def)
  note c8 = C8_default_ttl_at_coordinator [OF n h refl, of sample_pylib empty_manager "''c1''"
      "''lead1''" sample_context sample_str]
  from c8 a have "\<exists>n. get_short_term ?s1 ''c1'' (sample_now + 3600000000) =
               (Some \<lparr>md_conversation_id = ''c1'', md_lead_id = ''lead1'',
                       md_context = sample_context, md_last_updated = sample_now,
                       md_interaction_count = n\<rparr>, ?s1)"
    by blast
  then have 1: "fst (get_short_term ?s1 ''c1'' (sample_now + 3600000000)) \<noteq> None"
    by auto
  from c8 b have 2: "fst (get_short_term ?s1 ''c1'' (sample_now + 3600000001)) = None"
    by blast
  from h 1 2 show ?thesis by blast
qed

section \<open>Update without an active entry\<close>

text \<open>
  Claim C10, as stated, on a conversation whose entry is stored but expired: the
  \<open>get\<close> inside \<open>update_short_term\<close> removes the expired entry from the in-process
  map (\<open>del self.memory_store[key]\<close>), so the short-term tier is not left unchanged.
\<close>

theorem C10_lazy_removal_counterexample:
  "fst (get_short_term expired_manager ''c1'' 1) = None
   \<and> fst (update_short_term expired_manager ''c1'' [] 1) = False
   \<and> short_term (snd (update_short_term expired_manager ''c1'' [] 1)) ''c1''
       \<noteq> short_term expired_manager ''c1''"
  by (simp add: update_short_term_def get_short_term_def short_term_get_def expired_manager_def
        empty_manager_def)

text \<open>
  Claim C10, amended: for every conversation with no active (stored and unexpired)
  short-term entry, \<open>update_short_term\<close> returns False and writes to no tier: long-term,
  episodic and semantic memory (and the long-term write trace) are unchanged, and the
  short-term store is unchanged except that the expired entry of that conversation, if
  one is stored, is removed; when no entry is stored the whole state is unchanged.
\<close>

theorem C10_update_without_active_entry:
  assumes "fst (get_short_term mm cid now) = None"
  shows "fst (update_short_term mm cid upd now) = False
       \<and> snd (update_short_term mm cid upd now) = mm\<lparr>short_term := (short_term mm)(cid := None)\<rparr>
       \<and> long_term (snd (update_short_term mm cid upd now)) = long_term mm
       \<and> long_term_log (snd (update_short_term mm cid upd now)) = long_term_log mm
       \<and> episodic (snd (update_short_term mm cid upd now)) = episodic mm
       \<and> semantic (snd (update_short_term mm cid upd now)) = semantic mm
       \<and> (short_term mm cid = None \<longrightarrow> snd (update_short_term mm cid upd now) = mm)"
proof -
  have idem: "(short_term mm)(cid := None) = short_term mm" if "short_term mm cid = None"
    using that by (metis fun_upd_triv)
  have "update_short_term mm cid upd now = (False, mm\<lparr>short_term := (short_term mm)(cid := None)\<rparr>)"
  proof (cases "short_term mm cid")
    case None
    then show ?thesis
      by (simp add: update_short_term_def get_short_term_def short_term_get_def idem)
  next
    case (Some e)
    with assms show ?thesis
      by (auto simp: update_short_term_def get_short_term_def short_term_get_def
            split: option.splits if_splits)
  qed
  then show ?thesis using idem by simp
qed

theorem C10_update_without_active_entry_witness:
  "fst (get_short_term empty_manager ''c1'' 0) = None
   \<and> fst (update_short_term empty_manager ''c1'' sample_context 0) = False
   \<and> snd (update_short_term empty_manager ''c1'' sample_context 0) = empty_manager"
  using C10_update_without_active_entry [of empty_manager "''c1''" 0 sample_context]
  by (simp add: get_short_term_def short_term_get_def empty_manager_def)

section \<open>RFM score\<close>















section \<open>Episodic memory: acceptance threshold and search\<close>

lemma set_py_slice_to: "set (py_slice_to xs limit) \<subseteq> set xs"
  by (auto simp: py_slice_to_def dest: in_set_takeD)

lemma set_insort_desc: "set (insort_desc lt x ys) = insert x (set ys)"
  by (induction ys) auto

lemma set_sort_desc: "set (sort_desc lt xs) = set xs"
  unfolding sort_desc_def by (induction xs) (simp_all add: set_insort_desc)

lemma search_loop_from_store:
  "r \<in> set (search_loop L q filters ss) \<Longrightarrow> \<exists>s \<in> set ss. sr_episode r = st_metadata s"
  by (induction ss) (auto simp: Let_def split: if_splits)

lemma search_similar_from_store:
  assumes "r \<in> set (search_similar L em query_text filters limit)"
  shows "\<exists>s \<in> set (em_memory_store em). sr_episode r = st_metadata s"
proof -
  from assms have "r \<in> set (search_loop L (create_embedding L em query_text) filters (em_memory_store em))"
    unfolding search_similar_def Let_def using set_py_slice_to set_sort_desc by fast
  then show ?thesis by (rule search_loop_from_store)
qed

lemma store_episodic_memory_rejects:
  assumes "outcome_or_zero e < episodic_success_threshold"
  shows "store_episodic_memory L mm e uuid4 now = (False, mm)"
  using assms by (simp add: store_episodic_memory_def outcome_or_zero_def)

lemma store_episodic_memory_only_accepted:
  assumes "only_accepted (episodic mm)"
  shows "only_accepted (episodic (snd (store_episodic_memory L mm e uuid4 now)))"
  using assms
  by (auto simp: store_episodic_memory_def only_accepted_def episodic_store_def Let_def
        outcome_or_zero_def split: option.splits)

lemma store_episodes_only_accepted:
  "only_accepted (episodic mm) \<Longrightarrow> only_accepted (episodic (store_episodes L mm later))"
proof (induction later arbitrary: mm)
  case Nil
  then show ?case by simp
next
  case (Cons c later)
  obtain e u t where c: "c = (e, u, t)" by (cases c)
  show ?case
    unfolding c using Cons.IH [OF store_episodic_memory_only_accepted [OF Cons.prems]]
    by simp
qed

text \<open>
  Claim C3: for every episode whose outcome score (0.0 when the key is missing) is
  below the success threshold 0.8, \<open>store_episodic_memory\<close> returns False and leaves
  the coordinator's state as it is. On an episodic store filled through the coordinator,
  after any further \<open>store_episodic_memory\<close> calls, every result of every
  \<open>search_episodic_memory\<close> call has an outcome score of at least 0.8, so the rejected
  episode is never among the results.
\<close>

theorem C3_below_threshold_rejected:
  assumes "outcome_or_zero e < episodic_success_threshold"
      and "only_accepted (episodic mm)"
  shows "store_episodic_memory L mm e uuid4 now = (False, mm)
       \<and> (\<forall>later query_context agent_type limit.
            \<forall>r \<in> set (search_episodic_memory L
                         (store_episodes L (snd (store_episodic_memory L mm e uuid4 now)) later)
                         query_context agent_type limit).
              episodic_success_threshold \<le> outcome_or_zero (sr_episode r) \<and> sr_episode r \<noteq> e)"
proof (intro conjI allI ballI)
  show rej: "store_episodic_memory L mm e uuid4 now = (False, mm)"
    using assms(1) by (rule store_episodic_memory_rejects)
  fix later query_context agent_type limit r
  assume "r \<in> set (search_episodic_memory L
                     (store_episodes L (snd (store_episodic_memory L mm e uuid4 now)) later)
                     query_context agent_type limit)"
  then obtain s where s: "s \<in> set (em_memory_store (episodic (store_episodes L mm later)))"
      "sr_episode r = st_metadata s"
    unfolding rej search_episodic_memory_def Let_def snd_conv
    by (blast dest: search_similar_from_store)
  have "only_accepted (episodic (store_episodes L mm later))"
    using assms(2) by (rule store_episodes_only_accepted)
  with s show ok: "episodic_success_threshold \<le> outcome_or_zero (sr_episode r)"
    by (auto simp: only_accepted_def list_all_iff)
  with assms(1) show "sr_episode r \<noteq> e" by auto
qed

theorem C3_below_threshold_rejected_witness:
  "outcome_or_zero sample_low < episodic_success_threshold
   \<and> store_episodic_memory sample_pylib empty_manager sample_low ''u0'' 0 = (False, empty_manager)
   \<and> map sr_episode
        (search_episodic_memory sample_pylib
           (store_episodes sample_pylib
              (snd (store_episodic_memory sample_pylib empty_manager sample_low ''u0'' 0))
              [(sample_good, ''u1'', 1)])
           [] None 5)
     = [sample_good\<lparr>ep_episode_id := Some ''u1'', ep_stored_at := Some 1\<rparr>]"
proof -
  have h1: "outcome_or_zero sample_low < episodic_success_threshold"
    by (simp add: outcome_or_zero_def sample_low_def episodic_success_threshold_def)
  have h2: "only_accepted (episodic empty_manager)"
    by (simp add: only_accepted_def empty_manager_def)
  have rej: "store_episodic_memory sample_pylib empty_manager sample_low ''u0'' 0 = (False, empty_manager)"
    using C3_below_threshold_rejected [OF h1 h2] by blast
  show ?thesis
    unfolding rej using h1
    by (simp add: store_episodic_memory_def episodic_store_def search_episodic_memory_def
          search_similar_def sort_desc_def py_slice_to_def context_to_search_text_def
          episodic_success_threshold_def sample_good_def sample_low_def empty_manager_def Let_def)
qed


text \<open>
  Claim C5: with no embedding model configured, the embedding is a function of the text
  alone (through the MD5 digest): two instances of the store in whatever states, both
  without a model, compute the same vector for the same text, namely the 384 numbers
  \<open>(hash_int >> i) % 256 / 255 - 0.5\<close>; hence two episodes with the same text
  projection are stored with the same embedding.
\<close>

theorem C5_pseudo_embedding_deterministic:
  assumes "embedding_model em1 = None" and "embedding_model em2 = None"
  shows "create_embedding L em1 txt = create_embedding L em2 txt
       \<and> create_embedding L em1 txt =
           map (\<lambda>i. real ((md5_int L txt div 2 ^ i) mod 256) / 255 - 1 / 2) [0..<384]
       \<and> length (create_embedding L em1 txt) = 384
       \<and> (episode_to_text L e1 = episode_to_text L e2 \<longrightarrow>
            st_embedding (last (em_memory_store (snd (episodic_store L em1 id1 e1))))
          = st_embedding (last (em_memory_store (snd (episodic_store L em2 id2 e2)))))"
  using assms by (simp add: create_embedding_def episodic_store_def Let_def)

theorem C5_pseudo_embedding_deterministic_witness:
  "embedding_model (episodic empty_manager) = None \<and> embedding_model sample_store = None
   \<and> create_embedding sample_pylib (episodic empty_manager) ''scenario: demo''
     = create_embedding sample_pylib sample_store ''scenario: demo''
   \<and> length (create_embedding sample_pylib (episodic empty_manager) ''scenario: demo'') = 384"
proof -
  have h1: "embedding_model (episodic empty_manager) = None" by (simp add: empty_manager_def)
  have h2: "embedding_model sample_store = None" by (simp add: sample_store_def)
  from C5_pseudo_embedding_deterministic [OF h1 h2, of sample_pylib "''scenario: demo''"] h1 h2
  show ?thesis by blast
qed


section \<open>Recent successes\<close>
















section \<open>Semantic memory: storing triples\<close>

text \<open>
  \<open>_initialize_default_knowledge\<close> starts with \<open>if not self.graph: return\<close> and
  \<open>store_triple\<close> guards its NetworkX branch with \<open>elif self.graph:\<close>. The graph that
  \<open>initialize\<close> has just created has no nodes, hence is falsy: the default ontology is
  never loaded and every \<open>store_triple\<close> returns True without storing anything.
\<close>

lemma semantic_initialize_empty: "semantic_initialize = \<lparr>graph = Some empty_digraph\<rparr>"
  by (simp add: semantic_initialize_def initialize_default_knowledge_def graph_truthy_def
        digraph_truthy_def empty_digraph_def)

lemma store_triple_fresh_noop:
  "store_triple semantic_initialize t now = (True, semantic_initialize)"
  by (simp add: semantic_initialize_empty store_triple_def graph_truthy_def digraph_truthy_def
        empty_digraph_def Let_def)

text \<open>
  Past the guard (on a graph that already has a node) the NetworkX branch does overwrite
  the one edge between subject and object, its predicate included.
\<close>

lemma store_triple_upsert_when_truthy:
  "query_triples
     (snd (store_triple
        (snd (store_triple \<lparr>graph = Some (add_node empty_digraph ''Z'' no_node_attrs)\<rparr>
                (sample_triple (5 / 10)) 0))
        (sample_triple (9 / 10)) 1))
     None None None
   = [\<lparr>row_subject = ''A'', row_predicate = ''rel'', row_object = ''B'', row_weight = 9 / 10,
       row_source = ''system''\<rparr>]"
  by code_simp

lemma store_triple_predicate_overwritten:
  "query_triples
     (snd (store_triple
        (snd (store_triple \<lparr>graph = Some (add_node empty_digraph ''Z'' no_node_attrs)\<rparr>
                (sample_triple (5 / 10)) 0))
        ((sample_triple (9 / 10))\<lparr>t_predicate := ''other''\<rparr>) 1))
     None None None
   = [\<lparr>row_subject = ''A'', row_predicate = ''other'', row_object = ''B'', row_weight = 9 / 10,
       row_source = ''system''\<rparr>]"
  by code_simp

text \<open>
  Claim C6, evaluated on the store that \<open>initialize\<close> leaves when no Neo4j driver
  connects: storing \<open>(A, rel, B, weight=0.5)\<close> and then \<open>(A, rel, B, weight=0.9)\<close> returns
  True twice, and afterwards the graph is still empty and \<open>query_triples(A, rel, B)\<close>
  returns no edge, where the claim requires exactly one edge with weight 0.9.
\<close>

theorem C6_upsert_on_fresh_fallback:
  "fst (store_triple semantic_initialize (sample_triple (5 / 10)) 0) = True
   \<and> fst (store_triple (snd (store_triple semantic_initialize (sample_triple (5 / 10)) 0))
           (sample_triple (9 / 10)) 1) = True
   \<and> query_triples
        (snd (store_triple (snd (store_triple semantic_initialize (sample_triple (5 / 10)) 0))
                (sample_triple (9 / 10)) 1))
        (Some ''A'') (Some ''rel'') (Some ''B'') = []
   \<and> snd (store_triple (snd (store_triple semantic_initialize (sample_triple (5 / 10)) 0))
           (sample_triple (9 / 10)) 1) = \<lparr>graph = Some empty_digraph\<rparr>"
  by (simp add: store_triple_fresh_noop)
     (simp add: semantic_initialize_empty query_triples_def graph_truthy_def digraph_truthy_def
        empty_digraph_def)

section \<open>Semantic memory: traversal\<close>

lemma related_never_start_visit:
  assumes "\<forall>r \<in> set (snd acc). rel_concept r \<noteq> c"
  shows "\<forall>r \<in> set (snd (visit_neighbors c ts d vis cd p nbrs acc)). rel_concept r \<noteq> c"
  using assms
proof (induction nbrs arbitrary: acc)
  case Nil
  then show ?case by simp
next
  case (Cons nb nbrs)
  obtain n e where nb: "nb = (n, e)" by (cases nb)
  obtain q r where acc: "acc = (q, r)" by (cases acc)
  show ?case
    unfolding nb acc visit_neighbors_step
    by (rule Cons.IH) (use Cons.prems acc in auto)
qed

lemma related_never_start_bfs:
  assumes "bfs g c ts d vis q related = Some out" and "\<forall>r \<in> set related. rel_concept r \<noteq> c"
  shows "\<forall>r \<in> set out. rel_concept r \<noteq> c"
  using assms
proof (induction g c ts d vis q related rule: bfs.induct)
  case (1 g c ts d vis related)
  then show ?case by simp
next
  case (2 g c ts d vis cur cd p q related)
  show ?case
  proof (cases "cur \<in> vis \<or> d \<le> cd")
    case True
    with 2 show ?thesis by simp
  next
    case False
    with "2.prems"(1) obtain nbrs where nbrs: "map_of (succ g) cur = Some nbrs"
      by (cases "map_of (succ g) cur") auto
    let ?v = "visit_neighbors c ts d (insert cur vis) cd p nbrs (q, related)"
    have "bfs g c ts d (insert cur vis) (fst ?v) (snd ?v) = Some out"
      using "2.prems"(1) False nbrs by simp
    moreover have "\<forall>r \<in> set (snd ?v). rel_concept r \<noteq> c"
      by (rule related_never_start_visit) (use "2.prems"(2) in simp)
    ultimately show ?thesis
      using "2.IH"(2) [OF False nbrs] by blast
  qed
qed

lemma get_related_concepts_never_start:
  "\<forall>r \<in> set (get_related_concepts sm concept relationship_types depth). rel_concept r \<noteq> concept"
proof (cases "bfs (the (graph sm)) concept relationship_types depth {} [(concept, 0, [])] []")
  case None
  then show ?thesis by (simp add: get_related_concepts_def)
next
  case (Some out)
  from related_never_start_bfs [OF Some] have "\<forall>r \<in> set out. rel_concept r \<noteq> concept" by simp
  with Some show ?thesis by (simp add: get_related_concepts_def)
qed

lemma get_related_concepts_fresh:
  "get_related_concepts semantic_initialize concept relationship_types depth = []"
  by (simp add: get_related_concepts_def semantic_initialize_empty graph_truthy_def
        digraph_truthy_def empty_digraph_def)

text \<open>
  Past the guard (on a graph that already has a node before the two triples are stored)
  the traversal is the one the specification describes: \<open>B\<close> at distance 1, then \<open>C\<close> at
  distance 2, each with the relation types traversed, and nothing under a filter that
  holds only another type. An empty list of relationship types is falsy and filters
  nothing.
\<close>

lemma related_concepts_when_truthy:
  "get_related_concepts
     (snd (store_triple
        (snd (store_triple \<lparr>graph = Some (add_node empty_digraph ''Z'' no_node_attrs)\<rparr>
                (sample_triple 1) 0))
        sample_triple_b_c 1))
     ''A'' None 2
   = [\<lparr>rel_concept = ''B'', rel_path_types = [''rel''], rel_distance = 1,
       rel_relationship = ''rel''\<rparr>,
      \<lparr>rel_concept = ''C'', rel_path_types = [''rel'', ''rel''], rel_distance = 2,
       rel_relationship = ''rel''\<rparr>]"
  by code_simp

lemma related_concepts_filtered_when_truthy:
  "get_related_concepts
     (snd (store_triple
        (snd (store_triple \<lparr>graph = Some (add_node empty_digraph ''Z'' no_node_attrs)\<rparr>
                (sample_triple 1) 0))
        sample_triple_b_c 1))
     ''A'' (Some [''other'']) 2
   = []"
  by code_simp

lemma related_concepts_empty_filter_when_truthy:
  "get_related_concepts
     (snd (store_triple
        (snd (store_triple \<lparr>graph = Some (add_node empty_digraph ''Z'' no_node_attrs)\<rparr>
                (sample_triple 1) 0))
        sample_triple_b_c 1))
     ''A'' (Some []) 2
   = [\<lparr>rel_concept = ''B'', rel_path_types = [''rel''], rel_distance = 1,
       rel_relationship = ''rel''\<rparr>,
      \<lparr>rel_concept = ''C'', rel_path_types = [''rel'', ''rel''], rel_distance = 2,
       rel_relationship = ''rel''\<rparr>]"
  by code_simp

text \<open>
  Claim C7, evaluated on the store that \<open>initialize\<close> leaves when no Neo4j driver
  connects: seeding \<open>A -[rel]-> B\<close> and \<open>B -[rel]-> C\<close> with two \<open>store_triple\<close> calls
  returns True twice and stores nothing, and \<open>get_related_concepts("A", depth=2)\<close>
  then returns the empty list, where the claim requires \<open>B\<close> at distance 1 and \<open>C\<close> at
  distance 2.
\<close>

theorem C7_traversal_on_fresh_fallback:
  "fst (store_triple semantic_initialize (sample_triple 1) 0) = True
   \<and> fst (store_triple (snd (store_triple semantic_initialize (sample_triple 1) 0))
           sample_triple_b_c 1) = True
   \<and> snd (store_triple (snd (store_triple semantic_initialize (sample_triple 1) 0))
           sample_triple_b_c 1) = \<lparr>graph = Some empty_digraph\<rparr>
   \<and> get_related_concepts
        (snd (store_triple (snd (store_triple semantic_initialize (sample_triple 1) 0))
                sample_triple_b_c 1))
        ''A'' None 2 = []"
  by (simp add: store_triple_fresh_noop get_related_concepts_fresh)
     (simp add: semantic_initialize_empty)

end
